theory Spec2Isabelle
  imports Main "HOL-Library.Word"
begin

section \<open>JavaScript strings\<close>

text \<open>
  A JavaScript string is a sequence of 16-bit code units. String literals of the source
  are ASCII and are written through \<open>lit\<close>.
\<close>

type_synonym code_unit = "16 word"
type_synonym jsstring = "code_unit list"

definition lit :: "string \<Rightarrow> jsstring" where
  "lit s = map (\<lambda>c. word_of_nat (of_char c)) s"

definition comma :: code_unit where "comma = 0x2C"
definition colon :: code_unit where "colon = 0x3A"
definition semicolon :: code_unit where "semicolon = 0x3B"

text \<open>
  The regular expression atom \<open>.\<close> (no \<open>s\<close> flag) matches every code unit except the
  four line terminators LF, CR, U+2028 and U+2029.
\<close>

definition isLineTerminator :: "code_unit \<Rightarrow> bool" where
  "isLineTerminator c = (c = 0x0A \<or> c = 0x0D \<or> c = 0x2028 \<or> c = 0x2029)"

section \<open>services/geminiService: dataUrlToMimeAndBase64\<close>

text \<open>
  \<open>String.prototype.split\<close> with a one-unit separator cuts the input at every
  occurrence of the separator. The resulting array is never empty, so it is given as its
  first element together with the list of the elements after it.
\<close>

fun split :: "code_unit \<Rightarrow> jsstring \<Rightarrow> jsstring \<times> jsstring list" where
  "split sep [] = ([], [])"
| "split sep (c # cs) =
     (let (piece, pieces) = split sep cs
      in if c = sep then ([], piece # pieces) else (c # piece, pieces))"

text \<open>
  \<open>.*?;\<close> anchored at the start of its argument: the lazy star first tries to stop
  (the next unit is \<open>;\<close>), and otherwise lets \<open>.\<close> take one more unit, which fails on
  a line terminator and at the end of the input. The result is the text of the group.
\<close>

fun lazyGroup :: "jsstring \<Rightarrow> jsstring option" where
  "lazyGroup [] = None"
| "lazyGroup (c # cs) =
     (if c = semicolon then Some []
      else if isLineTerminator c then None
      else map_option ((#) c) (lazyGroup cs))"

text \<open>
  \<open>header.match(/:(.*?);/)?.[1]\<close>: the start positions are tried from left to right;
  the first one where the whole pattern matches gives group 1, and no match gives
  \<open>undefined\<close> (None).
\<close>

fun matchGroup1 :: "jsstring \<Rightarrow> jsstring option" where
  "matchGroup1 [] = None"
| "matchGroup1 (c # cs) =
     (if c = colon
      then (case lazyGroup cs of Some g \<Rightarrow> Some g | None \<Rightarrow> matchGroup1 cs)
      else matchGroup1 cs)"

text \<open>
  The result object. The array pattern \<open>[header, base64]\<close> binds the first two
  elements of the split array; \<open>base64\<close> is \<open>undefined\<close> (None) when the array has
  one element only. \<open>??\<close> replaces an absent match by the default type.
\<close>

record mimeAndBase64 =
  mimeType :: jsstring
  base64 :: "jsstring option"

definition dataUrlToMimeAndBase64 :: "jsstring \<Rightarrow> mimeAndBase64" where
  "dataUrlToMimeAndBase64 dataUrl =
     (let (header, rest) = split comma dataUrl;
          base64 = (case rest of [] \<Rightarrow> None | b # _ \<Rightarrow> Some b);
          mimeType = (case matchGroup1 header of
                        Some m \<Rightarrow> m
                      | None \<Rightarrow> lit ''application/octet-stream'')
      in \<lparr> mimeType = mimeType, base64 = base64 \<rparr>)"

section \<open>types\<close>

datatype aspectRatio = Landscape_16_9 | Portrait_9_16

record imageFile =
  imageId :: jsstring
  dataUrl :: jsstring
  imageName :: jsstring

section \<open>The collaborators of generateVideo\<close>

text \<open>
  The argument of \<open>ai.models.generateVideos\<close>. \<open>imageBytes\<close> is whatever the decoding
  gave for \<open>base64\<close>, so it may be \<open>undefined\<close>.
\<close>

record requestImage =
  imageBytes :: "jsstring option"
  imageMimeType :: jsstring

record requestConfig =
  numberOfVideos :: nat
  resolution :: jsstring
  configAspectRatio :: aspectRatio

record generateVideosParameters =
  model :: jsstring
  requestPrompt :: jsstring
  requestImage :: requestImage
  config :: requestConfig

text \<open>
  The job descriptor of the service. Every property the code reads is optional:
  \<open>operation.response?.generatedVideos?.[0]?.video?.uri\<close>. \<open>opName\<close> stands for the
  part of the descriptor that the code only passes back.
\<close>

record video =
  uri :: "jsstring option"

record generatedVideo =
  video :: "video option"

record generateVideosResponse =
  generatedVideos :: "generatedVideo list option"

record operation =
  opName :: "jsstring option"
  isDone :: "bool option"
  response :: "generateVideosResponse option"

text \<open>
  A thrown value. \<open>Error m\<close> is \<open>new Error(m)\<close> thrown by this code. The others are
  thrown by a collaborator (a rejected promise, a constructor that throws):
  \<open>RejectedNullish\<close> is \<open>null\<close> or \<open>undefined\<close>; \<open>Rejected (Some m)\<close> is a value whose
  \<open>message\<close> is the string \<open>m\<close>; \<open>Rejected None\<close> is a value whose \<open>message\<close> is absent
  or a falsy value that is not a string; \<open>RejectedOtherMessage\<close> is a value whose
  \<open>message\<close> is truthy, is not a string and has no method \<open>includes\<close> (a number,
  \<open>true\<close>, a plain object). A \<open>message\<close> that is not a string and has a method
  \<open>includes\<close> is left out.
\<close>

datatype exn =
    Error jsstring
  | Rejected "jsstring option"
  | RejectedNullish
  | RejectedOtherMessage

type_synonym blob = "8 word list"

text \<open>The \<open>Response\<close> of \<open>fetch\<close>; \<open>blob\<close> is what \<open>await videoResponse.blob()\<close> gives.\<close>

record fetchResponse =
  ok :: bool
  statusText :: jsstring
  blob :: "exn + blob"

text \<open>
  The host environment, as functions on a state \<open>'w\<close> of the outside world.
  \<open>API_KEY\<close> reads \<open>process.env.API_KEY\<close>. \<open>GoogleGenAI\<close> is the constructor of the client
  of the imported library, called with the option \<open>apiKey\<close>: it gives the value it
  throws, or None when it returns the client (the build of the library for browsers
  throws for an absent key). The client \<open>ai\<close> is given by the options it was
  constructed with, that is by its \<open>apiKey\<close>, which is the first argument of the two
  service calls. \<open>setTimeout ms\<close> is the wait
  \<open>await new Promise(resolve => setTimeout(resolve, ms))\<close>. \<open>fetch\<close> is called with a URL
  only, hence with the method GET. \<open>Math_random\<close> draws \<open>k\<close> for the number \<open>k / 2^53\<close>
  of the interval from 0 (included) to 1 (excluded).
\<close>

record 'w env =
  API_KEY :: "'w \<Rightarrow> jsstring option"
  GoogleGenAI :: "jsstring option \<Rightarrow> exn option"
  generateVideos ::
    "jsstring option \<Rightarrow> generateVideosParameters \<Rightarrow> 'w \<Rightarrow> (exn + operation) \<times> 'w"
  getVideosOperation :: "jsstring option \<Rightarrow> operation \<Rightarrow> 'w \<Rightarrow> (exn + operation) \<times> 'w"
  setTimeout :: "nat \<Rightarrow> 'w \<Rightarrow> 'w"
  fetch :: "jsstring \<Rightarrow> 'w \<Rightarrow> (exn + fetchResponse) \<times> 'w"
  createObjectURL :: "blob \<Rightarrow> 'w \<Rightarrow> jsstring \<times> 'w"
  Math_random :: "'w \<Rightarrow> 53 word \<times> 'w"

text \<open>
  The calls a run makes, in order. \<open>GenerateVideoCalled\<close> and \<open>ConsoleError\<close> are made by
  the handler of the user interface only.
\<close>

datatype event =
    Progress jsstring
  | GenerateVideos "jsstring option" generateVideosParameters
  | SetTimeout nat
  | GetVideosOperation "jsstring option" operation
  | Fetch jsstring
  | CreateObjectURL blob
  | GenerateVideoCalled jsstring jsstring aspectRatio
  | ConsoleError exn

section \<open>services/geminiService: generateVideo\<close>

text \<open>
  A number in a template literal. \<open>pollCount\<close> is a whole number that starts at 0 and
  grows by one in each pass, so it is a natural number here (a pass waits ten seconds,
  and the numbers of JavaScript count exactly up to 2^53); its text is its decimal
  numeral.
\<close>

definition digit :: "nat \<Rightarrow> code_unit" where
  "digit d = word_of_nat (48 + d)"

fun decimal :: "nat \<Rightarrow> jsstring" where
  "decimal n = (if n < 10 then [digit n] else decimal (n div 10) @ [digit (n mod 10)])"

text \<open>\<open>process.env.API_KEY\<close> in a template literal: \<open>undefined\<close> gives the text "undefined".\<close>

definition template :: "jsstring option \<Rightarrow> jsstring" where
  "template v = (case v of None \<Rightarrow> lit ''undefined'' | Some s \<Rightarrow> s)"

definition sendingMessage :: jsstring where
  "sendingMessage = lit ''Sending request to the AI...''"

definition warmingMessage :: jsstring where
  "warmingMessage = lit ''AI is warming up its creative engines...''"

definition checkMessage :: "nat \<Rightarrow> jsstring" where
  "checkMessage pollCount =
     lit ''Video generation in progress... (check #'' @ decimal pollCount @ lit '')''"

definition completeMessage :: jsstring where
  "completeMessage = lit ''Video generation complete! Downloading...''"

definition noDownloadLink :: exn where
  "noDownloadLink = Error (lit ''Video generation failed: No download link found.'')"

definition downloadFailed :: "jsstring \<Rightarrow> exn" where
  "downloadFailed text = Error (lit ''Failed to download video: '' @ text)"

definition request :: "jsstring \<Rightarrow> mimeAndBase64 \<Rightarrow> aspectRatio \<Rightarrow> generateVideosParameters" where
  "request prompt decoded aspectRatio =
     \<lparr> model = lit ''veo-3.1-fast-generate-preview'',
       requestPrompt = prompt,
       requestImage = \<lparr> imageBytes = base64 decoded, imageMimeType = mimeType decoded \<rparr>,
       config = \<lparr> numberOfVideos = 1, resolution = lit ''720p'',
                  configAspectRatio = aspectRatio \<rparr> \<rparr>"

text \<open>
  The loop of lines 60 to 66. It runs while \<open>operation.done\<close> is not true, and nothing
  bounds it: a run that never leaves the loop is the value None. The log of the calls
  made so far is passed along with the world.
\<close>

partial_function (option) pollLoop ::
  "'w env \<Rightarrow> jsstring option \<Rightarrow> (jsstring \<Rightarrow> 'w \<Rightarrow> 'w) \<Rightarrow> nat \<Rightarrow> operation \<Rightarrow> 'w \<Rightarrow> event list
     \<Rightarrow> ((exn + operation) \<times> 'w \<times> event list) option" where
  "pollLoop env ai onProgress pollCount operation w log =
     (if isDone operation = Some True then Some (Inr operation, w, log)
      else
        let pollCount = pollCount + 1;
            w = onProgress (checkMessage pollCount) w;
            w = setTimeout env 10000 w;
            (r, w) = getVideosOperation env ai operation w;
            log = log @ [Progress (checkMessage pollCount), SetTimeout 10000,
                         GetVideosOperation ai operation]
        in case r of
             Inl e \<Rightarrow> Some (Inl e, w, log)
           | Inr operation \<Rightarrow> pollLoop env ai onProgress pollCount operation w log)"

declare pollLoop.simps [code]

text \<open>\<open>operation.response?.generatedVideos?.[0]?.video?.uri\<close>\<close>

definition downloadLink :: "operation \<Rightarrow> jsstring option" where
  "downloadLink operation =
     (case response operation of
        None \<Rightarrow> None
      | Some r \<Rightarrow>
          (case generatedVideos r of
             None \<Rightarrow> None
           | Some [] \<Rightarrow> None
           | Some (v # _) \<Rightarrow> (case video v of None \<Rightarrow> None | Some d \<Rightarrow> uri d)))"

text \<open>Lines 68 to 81: what follows the loop. \<open>!downloadLink\<close> holds for \<open>undefined\<close> and "".\<close>

definition download ::
  "'w env \<Rightarrow> (jsstring \<Rightarrow> 'w \<Rightarrow> 'w) \<Rightarrow> operation \<Rightarrow> 'w \<Rightarrow> event list
     \<Rightarrow> (exn + jsstring) \<times> 'w \<times> event list" where
  "download env onProgress operation w log =
     (let w = onProgress completeMessage w;
          log = log @ [Progress completeMessage]
      in case downloadLink operation of
           None \<Rightarrow> (Inl noDownloadLink, w, log)
         | Some link \<Rightarrow>
             if link = [] then (Inl noDownloadLink, w, log)
             else
               let url = link @ lit ''&key='' @ template (API_KEY env w);
                   (r, w) = fetch env url w;
                   log = log @ [Fetch url]
               in (case r of
                     Inl e \<Rightarrow> (Inl e, w, log)
                   | Inr videoResponse \<Rightarrow>
                       if \<not> ok videoResponse
                       then (Inl (downloadFailed (statusText videoResponse)), w, log)
                       else (case blob videoResponse of
                               Inl e \<Rightarrow> (Inl e, w, log)
                             | Inr videoBlob \<Rightarrow>
                                 let (objectUrl, w) = createObjectURL env videoBlob w
                                 in (Inr objectUrl, w, log @ [CreateObjectURL videoBlob]))))"

text \<open>
  The whole function. The client is constructed first, from the key as it is then; when
  the constructor throws, nothing else is done. The result is None when the loop never
  ends, and otherwise the returned URL or the thrown value, the world after the call and
  the log of the calls.
  The progress sink \<open>onProgress\<close> is a function on the world that returns: its type is
  \<open>(message: string) => void\<close>, and a sink that throws is not part of this model.
\<close>

definition generateVideo ::
  "'w env \<Rightarrow> jsstring \<Rightarrow> jsstring \<Rightarrow> aspectRatio \<Rightarrow> (jsstring \<Rightarrow> 'w \<Rightarrow> 'w) \<Rightarrow> 'w
     \<Rightarrow> ((exn + jsstring) \<times> 'w \<times> event list) option" where
  "generateVideo env prompt imageDataUrl aspectRatio onProgress w =
     (let ai = API_KEY env w
      in case GoogleGenAI env ai of
           Some e \<Rightarrow> Some (Inl e, w, [])
         | None \<Rightarrow>
             let decoded = dataUrlToMimeAndBase64 imageDataUrl;
                 w = onProgress sendingMessage w;
                 parameters = request prompt decoded aspectRatio;
                 (r, w) = generateVideos env ai parameters w;
                 log = [Progress sendingMessage, GenerateVideos ai parameters]
             in (case r of
                   Inl e \<Rightarrow> Some (Inl e, w, log)
                 | Inr operation \<Rightarrow>
                     let w = onProgress warmingMessage w;
                         log = log @ [Progress warmingMessage]
                     in (case pollLoop env ai onProgress 0 operation w log of
                           None \<Rightarrow> None
                         | Some (Inl e, w, log) \<Rightarrow> Some (Inl e, w, log)
                         | Some (Inr operation, w, log) \<Rightarrow>
                             Some (download env onProgress operation w log))))"

section \<open>App: handleGenerate\<close>

definition RANDOM_PROMPTS :: "jsstring list" where
  "RANDOM_PROMPTS =
     [lit ''An epic, cinematic intro for a sci-fi blockbuster set in a neon-drenched cyberpunk city.'',
      lit ''A dramatic, fast-paced opening sequence for an action movie, featuring explosions and high-speed chases.'',
      lit ''A magical and whimsical intro for a fantasy adventure, with glowing forests and mythical creatures.'',
      lit ''A sleek and futuristic title sequence for a high-tech spy thriller.'',
      lit ''A mysterious and suspenseful opening for a horror film, set in a dark, abandoned mansion.'',
      lit ''A vibrant and energetic intro for a superhero movie, showcasing their powers.'']"

text \<open>
  The state of the component, one field for each \<open>useState\<close>. The handler reads
  \<open>image\<close>, \<open>prompt\<close> and \<open>aspectRatio\<close> as they were when it was created, and every
  setter writes one field. Only the writes of the handler are followed here: the effect
  on \<open>isLoading\<close>, which also writes \<open>loadingMessage\<close> on a timer, is not part of it.
\<close>

record appState =
  image_state :: "imageFile option"
  prompt_state :: jsstring
  aspectRatio_state :: aspectRatio
  isLoading :: bool
  loadingMessage :: jsstring
  videoUrl :: "jsstring option"
  error :: "jsstring option"
  isKeySelected :: bool

text \<open>
  During the call of the handler the world of generateVideo is the state of the
  component together with the outside world; the collaborators act on the latter, and
  the progress sink \<open>setLoadingMessage\<close> on the former.
\<close>

definition liftEnv :: "'w env \<Rightarrow> (appState \<times> 'w) env" where
  "liftEnv env =
     \<lparr> API_KEY = (\<lambda>(s, w). API_KEY env w),
       GoogleGenAI = GoogleGenAI env,
       generateVideos =
         (\<lambda>ai p (s, w). let (r, w) = generateVideos env ai p w in (r, (s, w))),
       getVideosOperation =
         (\<lambda>ai operation (s, w).
            let (r, w) = getVideosOperation env ai operation w in (r, (s, w))),
       setTimeout = (\<lambda>ms (s, w). (s, setTimeout env ms w)),
       fetch = (\<lambda>url (s, w). let (r, w) = fetch env url w in (r, (s, w))),
       createObjectURL =
         (\<lambda>b (s, w). let (u, w) = createObjectURL env b w in (u, (s, w))),
       Math_random = (\<lambda>(s, w). let (k, w) = Math_random env w in (k, (s, w))) \<rparr>"

definition setLoadingMessage :: "jsstring \<Rightarrow> appState \<times> 'w \<Rightarrow> appState \<times> 'w" where
  "setLoadingMessage m = (\<lambda>(s, w). (s\<lparr> loadingMessage := m \<rparr>, w))"

text \<open>\<open>String.prototype.includes\<close>: the second string occurs somewhere in the first.\<close>

fun includes_str :: "jsstring \<Rightarrow> jsstring \<Rightarrow> bool" where
  "includes_str [] sub = (sub = [])"
| "includes_str (c # cs) sub =
     (take (length sub) (c # cs) = sub \<or> includes_str cs sub)"

text \<open>
  The value of \<open>e.message || "An unknown error occurred."\<close> in the catch block, when it
  is a string, on which \<open>includes\<close> is then called. It is None when reading
  \<open>e.message\<close> throws a TypeError (\<open>e\<close> is \<open>null\<close> or \<open>undefined\<close>) and when the call of
  \<open>errorMessage.includes\<close> throws one (the message has no such method).
\<close>

definition errorMessageOf :: "exn \<Rightarrow> jsstring option" where
  "errorMessageOf e =
     (let unknown = lit ''An unknown error occurred.''
      in case e of
           Error m \<Rightarrow> Some (if m = [] then unknown else m)
         | Rejected None \<Rightarrow> Some unknown
         | Rejected (Some m) \<Rightarrow> Some (if m = [] then unknown else m)
         | RejectedNullish \<Rightarrow> None
         | RejectedOtherMessage \<Rightarrow> None)"

text \<open>The number of binary digits of a natural number.\<close>

fun bitLength :: "nat \<Rightarrow> nat" where
  "bitLength n = (if n = 0 then 0 else Suc (bitLength (n div 2)))"

declare bitLength.simps [simp del]

text \<open>
  Rounding to a double. For a natural number \<open>x\<close> the result is \<open>y\<close> such that \<open>y / 2^53\<close>
  is the double nearest to \<open>x / 2^53\<close>: \<open>x\<close> is rounded to 53 significant binary digits,
  and a tie goes to the even significand.
\<close>

definition roundToDouble :: "nat \<Rightarrow> nat" where
  "roundToDouble x =
     (let e = bitLength x - 53;
          q = x div 2 ^ e;
          r = x mod 2 ^ e
      in if 2 ^ e < 2 * r \<or> (2 * r = 2 ^ e \<and> odd q) then (q + 1) * 2 ^ e else q * 2 ^ e)"

text \<open>
  \<open>Math.floor(Math.random() * n)\<close> for the draw \<open>k\<close>, that is for the double \<open>k / 2^53\<close>,
  and a length \<open>n\<close> below \<open>2^53\<close>, which is a double itself: the product of the two
  doubles is their exact product \<open>k * n / 2^53\<close> rounded to a double.
\<close>

definition randomIndex :: "53 word \<Rightarrow> nat \<Rightarrow> nat" where
  "randomIndex k n = roundToDouble (unat k * n) div 2 ^ 53"

text \<open>How the handler ends: it returns, or a TypeError leaves its catch block.\<close>

datatype completion = Returns | ThrowsTypeError

text \<open>
  The handler, in the copy of the component that keeps the flag \<open>isKeySelected\<close> (the
  other copy differs in the name of this flag and in the text of one message, and has
  the same guard). \<open>prompt || ...\<close> takes the random prompt when \<open>prompt\<close> is empty, and
  only then is \<open>Math.random\<close> called. The catch block logs the thrown value first; when
  it then throws a TypeError itself, no error message is set. The \<open>finally\<close> block runs
  after every outcome. The log starts with the call of generateVideo, when there is one.
\<close>

definition handleGenerate ::
  "'w env \<Rightarrow> appState \<Rightarrow> 'w \<Rightarrow> (completion \<times> appState \<times> 'w \<times> event list) option" where
  "handleGenerate env s w =
     (case image_state s of
        None \<Rightarrow>
          Some (Returns,
                s\<lparr> error := Some (lit ''Please upload an image to generate a video.'') \<rparr>,
                w, [])
      | Some img \<Rightarrow>
          let st = s\<lparr> error := None \<rparr>;
              st = st\<lparr> videoUrl := None \<rparr>;
              st = st\<lparr> isLoading := True \<rparr>;
              (finalPrompt, w) =
                (if prompt_state s \<noteq> [] then (prompt_state s, w)
                 else let (k, w) = Math_random env w
                      in (RANDOM_PROMPTS ! randomIndex k (length RANDOM_PROMPTS), w));
              st = (if prompt_state s = [] then st\<lparr> prompt_state := finalPrompt \<rparr> else st);
              call = GenerateVideoCalled finalPrompt (dataUrl img) (aspectRatio_state s)
          in (case generateVideo (liftEnv env) finalPrompt (dataUrl img) (aspectRatio_state s)
                    setLoadingMessage (st, w) of
               None \<Rightarrow> None
             | Some (Inr url, (st, w), log) \<Rightarrow>
                 let st = st\<lparr> videoUrl := Some url \<rparr>;
                     st = st\<lparr> isLoading := False \<rparr>
                 in Some (Returns, st, w, call # log)
             | Some (Inl e, (st, w), log) \<Rightarrow>
                 (case errorMessageOf e of
                    None \<Rightarrow>
                      let st = st\<lparr> isLoading := False \<rparr>
                      in Some (ThrowsTypeError, st, w, call # log @ [ConsoleError e])
                  | Some errorMessage \<Rightarrow>
                      let notFound =
                            includes_str errorMessage (lit ''Requested entity was not found'');
                          errorMessage =
                            (if notFound
                             then lit ''API Key is invalid or not found. Please select a valid key.''
                             else errorMessage);
                          st = (if notFound then st\<lparr> isKeySelected := False \<rparr> else st);
                          st = st\<lparr> error := Some errorMessage \<rparr>;
                          st = st\<lparr> isLoading := False \<rparr>
                      in Some (Returns, st, w, call # log @ [ConsoleError e]))))"

section \<open>Observations on a log\<close>

fun progressMessages :: "event list \<Rightarrow> jsstring list" where
  "progressMessages [] = []"
| "progressMessages (Progress m # es) = m # progressMessages es"
| "progressMessages (_ # es) = progressMessages es"

fun delays :: "event list \<Rightarrow> nat list" where
  "delays [] = []"
| "delays (SetTimeout ms # es) = ms # delays es"
| "delays (_ # es) = delays es"

fun polls :: "event list \<Rightarrow> (jsstring option \<times> operation) list" where
  "polls [] = []"
| "polls (GetVideosOperation ai operation # es) = (ai, operation) # polls es"
| "polls (_ # es) = polls es"

fun submissions :: "event list \<Rightarrow> (jsstring option \<times> generateVideosParameters) list" where
  "submissions [] = []"
| "submissions (GenerateVideos ai p # es) = (ai, p) # submissions es"
| "submissions (_ # es) = submissions es"

fun fetches :: "event list \<Rightarrow> jsstring list" where
  "fetches [] = []"
| "fetches (Fetch url # es) = url # fetches es"
| "fetches (_ # es) = fetches es"

fun objectURLsCreated :: "event list \<Rightarrow> blob list" where
  "objectURLsCreated [] = []"
| "objectURLsCreated (CreateObjectURL b # es) = b # objectURLsCreated es"
| "objectURLsCreated (_ # es) = objectURLsCreated es"

fun orchestratorCalls :: "event list \<Rightarrow> (jsstring \<times> jsstring \<times> aspectRatio) list" where
  "orchestratorCalls [] = []"
| "orchestratorCalls (GenerateVideoCalled p d a # es) = (p, d, a) # orchestratorCalls es"
| "orchestratorCalls (_ # es) = orchestratorCalls es"

text \<open>The log of a run, which is empty for a run that does not return.\<close>

definition logOf :: "('r \<times> 'w \<times> event list) option \<Rightarrow> event list" where
  "logOf run = (case run of None \<Rightarrow> [] | Some (r, w, log) \<Rightarrow> log)"

definition handlerLogOf :: "('c \<times> 's \<times> 'w \<times> event list) option \<Rightarrow> event list" where
  "handlerLogOf run = (case run of None \<Rightarrow> [] | Some (c, s, w, log) \<Rightarrow> log)"

text \<open>
  The job stays pending for \<open>n\<close> passes of the loop: starting with \<open>operation\<close> in the
  world \<open>w\<close> after \<open>pollCount\<close> passes, each of the next \<open>n\<close> passes finds the current
  descriptor not done and gets an answer from the service. The result is the list of
  the descriptors that were current in these passes, the last answer and the world
  after it.
\<close>

fun pendingCycles ::
  "'w env \<Rightarrow> jsstring option \<Rightarrow> (jsstring \<Rightarrow> 'w \<Rightarrow> 'w) \<Rightarrow> nat \<Rightarrow> nat \<Rightarrow> operation \<Rightarrow> 'w
     \<Rightarrow> (operation list \<times> operation \<times> 'w) option" where
  "pendingCycles env ai onProgress 0 pollCount operation w = Some ([], operation, w)"
| "pendingCycles env ai onProgress (Suc n) pollCount operation w =
     (if isDone operation = Some True then None
      else
        case getVideosOperation env ai operation
               (setTimeout env 10000 (onProgress (checkMessage (pollCount + 1)) w)) of
          (Inl e, _) \<Rightarrow> None
        | (Inr answer, w') \<Rightarrow>
            map_option (\<lambda>(current, final). (operation # current, final))
              (pendingCycles env ai onProgress n (pollCount + 1) answer w'))"

text \<open>
  The calls of these passes: the descriptors \<open>current\<close> were current in the passes
  that followed the first \<open>pollCount\<close> passes.
\<close>

fun cycleEvents :: "jsstring option \<Rightarrow> nat \<Rightarrow> operation list \<Rightarrow> event list" where
  "cycleEvents ai pollCount [] = []"
| "cycleEvents ai pollCount (operation # current) =
     [Progress (checkMessage (pollCount + 1)), SetTimeout 10000,
      GetVideosOperation ai operation] @ cycleEvents ai (pollCount + 1) current"

section \<open>A scripted environment\<close>

text \<open>
  A test double for the collaborators: the constructor of the client throws for an
  absent key, the service gives the answers of a script, one for each call, \<open>fetch\<close> finds the bodies of a table of URLs, the clock adds up the
  waits, object URLs are numbered, and the progress sink keeps what it is given.
\<close>

record mockWorld =
  key :: "jsstring option"
  script :: "operation list"
  assets :: "(jsstring \<times> blob) list"
  objectURLs :: "(jsstring \<times> blob) list"
  clock :: nat
  shown :: "jsstring list"

definition mockAnswer :: "mockWorld \<Rightarrow> (exn + operation) \<times> mockWorld" where
  "mockAnswer w =
     (case script w of
        [] \<Rightarrow> (Inl (Rejected None), w)
      | operation # rest \<Rightarrow> (Inr operation, w\<lparr> script := rest \<rparr>))"

definition mockFetch :: "jsstring \<Rightarrow> mockWorld \<Rightarrow> (exn + fetchResponse) \<times> mockWorld" where
  "mockFetch url w =
     (case map_of (assets w) url of
        Some bytes \<Rightarrow> (Inr \<lparr> ok = True, statusText = lit ''OK'', blob = Inr bytes \<rparr>, w)
      | None \<Rightarrow> (Inr \<lparr> ok = False, statusText = lit ''Not Found'', blob = Inr [] \<rparr>, w))"

definition mockCreateObjectURL :: "blob \<Rightarrow> mockWorld \<Rightarrow> jsstring \<times> mockWorld" where
  "mockCreateObjectURL b w =
     (let u = lit ''blob:'' @ decimal (length (objectURLs w))
      in (u, w\<lparr> objectURLs := objectURLs w @ [(u, b)] \<rparr>))"

definition mockGoogleGenAI :: "jsstring option \<Rightarrow> exn option" where
  "mockGoogleGenAI apiKey =
     (case apiKey of
        None \<Rightarrow> Some (Rejected (Some (lit ''An API Key must be set when running in a browser'')))
      | Some k \<Rightarrow> None)"

definition mockEnv :: "mockWorld env" where
  "mockEnv =
     \<lparr> API_KEY = key,
       GoogleGenAI = mockGoogleGenAI,
       generateVideos = (\<lambda>ai p. mockAnswer),
       getVideosOperation = (\<lambda>ai operation. mockAnswer),
       setTimeout = (\<lambda>ms w. w\<lparr> clock := clock w + ms \<rparr>),
       fetch = mockFetch,
       createObjectURL = mockCreateObjectURL,
       Math_random = (\<lambda>w. (0, w)) \<rparr>"

definition mockProgress :: "jsstring \<Rightarrow> mockWorld \<Rightarrow> mockWorld" where
  "mockProgress m w = w\<lparr> shown := shown w @ [m] \<rparr>"

definition doneWith :: "jsstring \<Rightarrow> operation" where
  "doneWith link =
     \<lparr> opName = Some (lit ''operations/1''), isDone = Some True,
       response = Some \<lparr> generatedVideos = Some [\<lparr> video = Some \<lparr> uri = Some link \<rparr> \<rparr>] \<rparr> \<rparr>"

definition pendingOp :: operation where
  "pendingOp = \<lparr> opName = Some (lit ''operations/1''), isDone = None, response = None \<rparr>"

definition mockImage :: imageFile where
  "mockImage =
     \<lparr> imageId = lit ''1700000000000'', dataUrl = lit ''data:image/png;base64,AAAA'',
       imageName = lit ''dog.png'' \<rparr>"

definition mockState :: "imageFile option \<Rightarrow> jsstring \<Rightarrow> appState" where
  "mockState img text =
     \<lparr> image_state = img, prompt_state = text, aspectRatio_state = Landscape_16_9,
       isLoading = False, loadingMessage = [], videoUrl = None, error = None,
       isKeySelected = True \<rparr>"

definition mockWorld0 :: "jsstring \<Rightarrow> operation list \<Rightarrow> mockWorld" where
  "mockWorld0 cred answers =
     \<lparr> key = Some cred, script = answers,
       assets = [(lit ''https://example/video123&key='' @ cred, [1, 2, 3])],
       objectURLs = [], clock = 0, shown = [] \<rparr>"

section \<open>Properties of dataUrlToMimeAndBase64\<close>

lemma split_no_separator: "sep \<notin> set s \<Longrightarrow> split sep s = (s, [])"
  by (induction s) auto

lemma split_at_separator:
  "sep \<notin> set a \<Longrightarrow> split sep (a @ sep # b) = (a, fst (split sep b) # snd (split sep b))"
  by (induction a) (auto split: prod.splits)

lemma split_first_piece: "fst (split sep s) = takeWhile (\<lambda>c. c \<noteq> sep) s"
  by (induction s) (auto split: prod.splits)

lemma split_at_first:
  "sep \<in> set s \<Longrightarrow>
   s = takeWhile (\<lambda>c. c \<noteq> sep) s @ sep # tl (dropWhile (\<lambda>c. c \<noteq> sep) s)"
  by (induction s) auto

lemma lazyGroup_stops:
  "semicolon \<notin> set g \<Longrightarrow> \<forall>c\<in>set g. \<not> isLineTerminator c \<Longrightarrow>
   lazyGroup (g @ semicolon # r) = Some g"
  by (induction g) auto

lemma matchGroup1_data:
  "matchGroup1 (lit ''data:'' @ r) =
     (case lazyGroup r of Some g \<Rightarrow> Some g | None \<Rightarrow> matchGroup1 r)"
  by (simp add: lit_def colon_def)

lemma comma_not_in_literals:
  "comma \<notin> set (lit ''data:'')" "comma \<notin> set (lit '';base64'')"
  by (simp_all add: lit_def comma_def)

lemma literal_base64_comma: "lit '';base64,'' = semicolon # lit ''base64'' @ [comma]"
  by (simp add: lit_def comma_def semicolon_def)

lemma decode_of_form:
  assumes "semicolon \<notin> set mime" "comma \<notin> set mime"
    "\<forall>c\<in>set mime. \<not> isLineTerminator c" "comma \<notin> set payload"
  shows "dataUrlToMimeAndBase64 (lit ''data:'' @ mime @ lit '';base64,'' @ payload) =
         \<lparr> mimeType = mime, base64 = Some payload \<rparr>"
proof -
  let ?header = "lit ''data:'' @ mime @ semicolon # lit ''base64''"
  have input: "lit ''data:'' @ mime @ lit '';base64,'' @ payload = ?header @ comma # payload"
    by (simp add: literal_base64_comma)
  have "comma \<notin> set ?header"
    using assms(2) by (simp add: lit_def comma_def semicolon_def)
  then have "split comma (?header @ comma # payload) =
      (?header, fst (split comma payload) # snd (split comma payload))"
    by (rule split_at_separator)
  then have "split comma (?header @ comma # payload) = (?header, [payload])"
    by (simp only: split_no_separator [OF assms(4)] fst_conv snd_conv)
  moreover have "matchGroup1 ?header = Some mime"
    using assms(1,3) by (simp add: matchGroup1_data lazyGroup_stops)
  ultimately show ?thesis
    unfolding input by (simp add: dataUrlToMimeAndBase64_def)
qed

lemma decode_with_comma:
  assumes "comma \<in> set s"
  shows "dataUrlToMimeAndBase64 s =
         \<lparr> mimeType = (case matchGroup1 (takeWhile (\<lambda>c. c \<noteq> comma) s) of
                         Some m \<Rightarrow> m | None \<Rightarrow> lit ''application/octet-stream''),
           base64 = Some (takeWhile (\<lambda>c. c \<noteq> comma) (tl (dropWhile (\<lambda>c. c \<noteq> comma) s))) \<rparr>"
proof -
  let ?a = "takeWhile (\<lambda>c. c \<noteq> comma) s" and ?b = "tl (dropWhile (\<lambda>c. c \<noteq> comma) s)"
  have "comma \<notin> set ?a" by (auto dest: set_takeWhileD)
  then have "split comma (?a @ comma # ?b) = (?a, fst (split comma ?b) # snd (split comma ?b))"
    by (rule split_at_separator)
  then have "split comma s = (?a, takeWhile (\<lambda>c. c \<noteq> comma) ?b # snd (split comma ?b))"
    using split_at_first [OF assms] by (simp add: split_first_piece)
  then show ?thesis
    by (simp add: dataUrlToMimeAndBase64_def)
qed

text \<open>
  Claim C1, as amended. For every input \<open>data:<mime>;base64,<payload>\<close> whose \<open><mime>\<close>
  has no semicolon, comma or line terminator and whose \<open><payload>\<close> has no comma, the
  decoding returns exactly that MIME type and that payload. For every input with a comma
  whose header (the text before the first comma) has no match of \<open>:(.*?);\<close>, the MIME
  type is \<open>application/octet-stream\<close> and the payload is the text between the first
  comma and the next one, or the end of the input when there is no other comma.
\<close>

theorem dataUrl_decoding:
  "(semicolon \<notin> set mime \<and> comma \<notin> set mime \<and> (\<forall>c\<in>set mime. \<not> isLineTerminator c)
      \<and> comma \<notin> set payload \<longrightarrow>
    dataUrlToMimeAndBase64 (lit ''data:'' @ mime @ lit '';base64,'' @ payload) =
      \<lparr> mimeType = mime, base64 = Some payload \<rparr>)
   \<and> (comma \<in> set s \<and> matchGroup1 (takeWhile (\<lambda>c. c \<noteq> comma) s) = None \<longrightarrow>
    dataUrlToMimeAndBase64 s =
      \<lparr> mimeType = lit ''application/octet-stream'',
        base64 = Some (takeWhile (\<lambda>c. c \<noteq> comma)
                         (tl (dropWhile (\<lambda>c. c \<noteq> comma) s))) \<rparr>)"
  using decode_of_form [of mime payload] decode_with_comma [of s] by simp

theorem dataUrl_decoding_witness:
  "dataUrlToMimeAndBase64 (lit ''data:image/png;base64,AAAA'') =
     \<lparr> mimeType = lit ''image/png'', base64 = Some (lit ''AAAA'') \<rparr>
   \<and> dataUrlToMimeAndBase64 (lit ''x,d,e'') =
     \<lparr> mimeType = lit ''application/octet-stream'', base64 = Some (lit ''d'') \<rparr>"
  using dataUrl_decoding [of "lit ''image/png''" "lit ''AAAA''" "lit ''x,d,e''"]
  by (simp add: lit_def comma_def semicolon_def colon_def isLineTerminator_def)

text \<open>
  Claim C1 as it is written fails. The header of \<open>x,d,e\<close> has no match and the text after
  its first comma is \<open>d,e\<close>, but the payload returned is not \<open>d,e\<close> (it is \<open>d\<close>). And for
  the media type \<open>text/plain;charset=utf-8\<close> the returned MIME type is not the text
  between \<open>data:\<close> and \<open>;base64,\<close> (it is \<open>text/plain\<close>).
\<close>

theorem dataUrl_payload_counterexample:
  "split comma (lit ''x,d,e'') = (lit ''x'', [lit ''d'', lit ''e''])
   \<and> matchGroup1 (lit ''x'') = None
   \<and> lit ''x,d,e'' = lit ''x'' @ comma # lit ''d,e''
   \<and> base64 (dataUrlToMimeAndBase64 (lit ''x,d,e'')) = Some (lit ''d'')
   \<and> base64 (dataUrlToMimeAndBase64 (lit ''x,d,e'')) \<noteq> Some (lit ''d,e'')
   \<and> mimeType (dataUrlToMimeAndBase64 (lit ''data:text/plain;charset=utf-8;base64,AAAA''))
       = lit ''text/plain''
   \<and> mimeType (dataUrlToMimeAndBase64 (lit ''data:text/plain;charset=utf-8;base64,AAAA''))
       \<noteq> lit ''text/plain;charset=utf-8''"
  by (simp add: dataUrlToMimeAndBase64_def lit_def comma_def semicolon_def colon_def
      isLineTerminator_def)

text \<open>
  Claim C9. For every input without a comma the split array is the input alone, so the
  header is a string and the decoding returns: the MIME type is group 1 of the match on
  the whole input, or \<open>application/octet-stream\<close> without a match, and the payload is
  absent, which is neither the input nor the empty string.
\<close>

theorem no_comma_payload_absent:
  assumes "comma \<notin> set s"
  shows "split comma s = (s, [])
       \<and> dataUrlToMimeAndBase64 s =
           \<lparr> mimeType = (case matchGroup1 s of
                           Some m \<Rightarrow> m | None \<Rightarrow> lit ''application/octet-stream''),
             base64 = None \<rparr>
       \<and> base64 (dataUrlToMimeAndBase64 s) \<noteq> Some s
       \<and> base64 (dataUrlToMimeAndBase64 s) \<noteq> Some []"
  using assms by (simp add: dataUrlToMimeAndBase64_def split_no_separator)

theorem no_comma_payload_absent_witness:
  "comma \<notin> set (lit ''data:image/png;base64'')
   \<and> dataUrlToMimeAndBase64 (lit ''data:image/png;base64'') =
       \<lparr> mimeType = lit ''image/png'', base64 = None \<rparr>
   \<and> dataUrlToMimeAndBase64 (lit ''AAAA'') =
       \<lparr> mimeType = lit ''application/octet-stream'', base64 = None \<rparr>"
  using no_comma_payload_absent [of "lit ''data:image/png;base64''"]
    no_comma_payload_absent [of "lit ''AAAA''"]
  by (simp add: lit_def comma_def semicolon_def colon_def isLineTerminator_def)

section \<open>The polling loop\<close>

lemma pendingCycles_length:
  "pendingCycles env ai onProgress n pollCount operation w = Some (current, final) \<Longrightarrow>
   length current = n"
  by (induction n arbitrary: pollCount operation w current)
     (auto split: if_splits prod.splits sum.splits)

lemma pollLoop_pending:
  assumes "pendingCycles env ai onProgress n pollCount operation w = Some (current, final, w')"
    and "isDone final = Some True"
  shows "pollLoop env ai onProgress pollCount operation w log =
           Some (Inr final, w', log @ cycleEvents ai pollCount current)"
  using assms
proof (induction n arbitrary: pollCount operation w log current)
  case 0
  then show ?case
    by (subst pollLoop.simps) simp
next
  case (Suc n)
  from Suc.prems(1) have pending: "isDone operation \<noteq> Some True"
    by (auto split: if_splits)
  obtain r w1 where step:
    "getVideosOperation env ai operation
       (setTimeout env 10000 (onProgress (checkMessage (pollCount + 1)) w)) = (r, w1)"
    by (cases "getVideosOperation env ai operation
       (setTimeout env 10000 (onProgress (checkMessage (pollCount + 1)) w))")
  from Suc.prems(1) pending step obtain answer rest where
    r: "r = Inr answer" and current: "current = operation # rest" and
    rest: "pendingCycles env ai onProgress n (pollCount + 1) answer w1 = Some (rest, final, w')"
    by (cases r) auto
  have "pollLoop env ai onProgress (pollCount + 1) answer w1
          (log @ [Progress (checkMessage (pollCount + 1)), SetTimeout 10000,
                  GetVideosOperation ai operation]) =
        Some (Inr final, w',
          (log @ [Progress (checkMessage (pollCount + 1)), SetTimeout 10000,
                  GetVideosOperation ai operation]) @ cycleEvents ai (pollCount + 1) rest)"
    using rest Suc.prems(2) by (rule Suc.IH)
  then show ?case
    using pending step r current
    by (subst pollLoop.simps) simp
qed

lemma pollLoop_returns:
  assumes "pollLoop env ai onProgress pollCount operation w log = Some y"
  shows "\<exists>current. snd (snd y) = log @ cycleEvents ai pollCount current \<and>
           (\<forall>final. fst y = Inr final \<longrightarrow>
              isDone final = Some True \<and>
              pendingCycles env ai onProgress (length current) pollCount operation w =
                Some (current, final, fst (snd y)))"
proof (induct rule: pollLoop.raw_induct [OF _ assms])
  case (1 pollLoop env ai onProgress pollCount operation w log y)
  show ?case
  proof (cases "isDone operation = Some True")
    case True
    with 1(2) have "y = (Inr operation, w, log)" by simp
    then have "snd (snd y) = log @ cycleEvents ai pollCount [] \<and>
           (\<forall>final. fst y = Inr final \<longrightarrow>
              isDone final = Some True \<and>
              pendingCycles env ai onProgress (length ([]::operation list)) pollCount operation w =
                Some ([], final, fst (snd y)))"
      using True by simp
    then show ?thesis by blast
  next
    case False
    obtain r w1 where step:
      "getVideosOperation env ai operation
         (setTimeout env 10000 (onProgress (checkMessage (pollCount + 1)) w)) = (r, w1)"
      by (cases "getVideosOperation env ai operation
         (setTimeout env 10000 (onProgress (checkMessage (pollCount + 1)) w))")
    let ?log = "log @ [Progress (checkMessage (pollCount + 1)), SetTimeout 10000,
                       GetVideosOperation ai operation]"
    show ?thesis
    proof (cases r)
      case (Inl e)
      with 1(2) False step have "y = (Inl e, w1, ?log)" by simp
      then have "snd (snd y) = log @ cycleEvents ai pollCount [operation] \<and>
           (\<forall>final. fst y = Inr final \<longrightarrow>
              isDone final = Some True \<and>
              pendingCycles env ai onProgress (length [operation]) pollCount operation w =
                Some ([operation], final, fst (snd y)))"
        by simp
      then show ?thesis by blast
    next
      case (Inr answer)
      with 1(2) False step
      have "pollLoop env ai onProgress (pollCount + 1) answer w1 ?log = Some y"
        by simp
      from 1(1) [OF this] obtain rest where
        log: "snd (snd y) = ?log @ cycleEvents ai (pollCount + 1) rest" and
        final: "\<forall>final. fst y = Inr final \<longrightarrow>
              isDone final = Some True \<and>
              pendingCycles env ai onProgress (length rest) (pollCount + 1) answer w1 =
                Some (rest, final, fst (snd y))"
        by blast
      have "snd (snd y) = log @ cycleEvents ai pollCount (operation # rest) \<and>
           (\<forall>final. fst y = Inr final \<longrightarrow>
              isDone final = Some True \<and>
              pendingCycles env ai onProgress (length (operation # rest)) pollCount operation w =
                Some (operation # rest, final, fst (snd y)))"
        using log final False step Inr by simp
      then show ?thesis by blast
    qed
  qed
qed

section \<open>The progress messages of the loop\<close>

text \<open>The check messages of different counters are different texts.\<close>

lemma decimal_not_Nil: "decimal n \<noteq> []"
  by (subst decimal.simps) simp

lemma unat_digit: "d < 10 \<Longrightarrow> unat (digit d) = 48 + d"
proof -
  assume "d < 10"
  then have "48 + d < 2 ^ LENGTH(16)" by simp
  then show ?thesis
    unfolding digit_def by (rule of_nat_inverse [OF refl])
qed

lemma digit_inject:
  assumes "a < 10" and "b < 10" and "digit a = digit b"
  shows "a = b"
proof -
  have "48 + a = unat (digit a)"
    using assms(1) by (simp only: unat_digit)
  also have "\<dots> = unat (digit b)"
    by (simp only: assms(3))
  also have "\<dots> = 48 + b"
    using assms(2) by (simp only: unat_digit)
  finally show ?thesis
    by (simp only: add_left_cancel)
qed

lemma decimal_inject: "decimal n = decimal m \<Longrightarrow> n = m"
proof (induction n arbitrary: m rule: decimal.induct)
  case (1 n)
  show ?case
  proof (cases "n < 10")
    case True
    then have n: "decimal n = [digit n]" by simp
    show ?thesis
    proof (cases "m < 10")
      case True
      then have "decimal m = [digit m]" by simp
      with n "1.prems" \<open>n < 10\<close> \<open>m < 10\<close> show ?thesis
        by (auto simp del: decimal.simps dest: digit_inject)
    next
      case False
      then have "decimal m = decimal (m div 10) @ [digit (m mod 10)]"
        by (subst decimal.simps) simp
      with n "1.prems" decimal_not_Nil [of "m div 10"] show ?thesis
        by (cases "decimal (m div 10)") (auto simp del: decimal.simps)
    qed
  next
    case False
    then have n: "decimal n = decimal (n div 10) @ [digit (n mod 10)]"
      by (subst decimal.simps) simp
    show ?thesis
    proof (cases "m < 10")
      case True
      then have "decimal m = [digit m]" by simp
      with n "1.prems" decimal_not_Nil [of "n div 10"] show ?thesis
        by (cases "decimal (n div 10)") (auto simp del: decimal.simps)
    next
      case m: False
      then have "decimal m = decimal (m div 10) @ [digit (m mod 10)]"
        by (subst decimal.simps) simp
      with n "1.prems" have
        "decimal (n div 10) = decimal (m div 10)" "digit (n mod 10) = digit (m mod 10)"
        by (auto simp del: decimal.simps)
      then have "n div 10 = m div 10" "n mod 10 = m mod 10"
        using "1.IH" [OF False] digit_inject [of "n mod 10" "m mod 10"]
        by (auto simp del: decimal.simps)
      then show ?thesis
        by (metis div_mult_mod_eq)
    qed
  qed
qed

lemma checkMessage_inject: "checkMessage j = checkMessage k \<Longrightarrow> j = k"
  by (auto simp: checkMessage_def simp del: decimal.simps dest: decimal_inject)

section \<open>Observations on the log of the loop\<close>

lemma progressMessages_append:
  "progressMessages (xs @ ys) = progressMessages xs @ progressMessages ys"
  by (induction xs rule: progressMessages.induct) simp_all

lemma delays_append: "delays (xs @ ys) = delays xs @ delays ys"
  by (induction xs rule: delays.induct) simp_all

lemma polls_append: "polls (xs @ ys) = polls xs @ polls ys"
  by (induction xs rule: polls.induct) simp_all

lemma submissions_append: "submissions (xs @ ys) = submissions xs @ submissions ys"
  by (induction xs rule: submissions.induct) simp_all

lemma fetches_append: "fetches (xs @ ys) = fetches xs @ fetches ys"
  by (induction xs rule: fetches.induct) simp_all

lemma objectURLsCreated_append:
  "objectURLsCreated (xs @ ys) = objectURLsCreated xs @ objectURLsCreated ys"
  by (induction xs rule: objectURLsCreated.induct) simp_all

lemma orchestratorCalls_append:
  "orchestratorCalls (xs @ ys) = orchestratorCalls xs @ orchestratorCalls ys"
  by (induction xs rule: orchestratorCalls.induct) simp_all

lemmas observe_append =
  progressMessages_append delays_append polls_append submissions_append fetches_append
  objectURLsCreated_append orchestratorCalls_append

lemma progressMessages_cycleEvents:
  "progressMessages (cycleEvents ai pollCount current) =
     map checkMessage [pollCount + 1 ..< pollCount + 1 + length current]"
proof (induction current arbitrary: pollCount)
  case Nil
  show ?case by simp
next
  case (Cons operation current)
  have "[pollCount + 1 ..< pollCount + 1 + length (operation # current)] =
        (pollCount + 1) # [pollCount + 1 + 1 ..< pollCount + 1 + 1 + length current]"
    by (subst upt_rec) simp
  then show ?case
    using Cons.IH [of "pollCount + 1"] by (simp only: cycleEvents.simps
      progressMessages_append progressMessages.simps list.map append.simps)
qed

lemma delays_cycleEvents:
  "delays (cycleEvents ai pollCount current) = replicate (length current) 10000"
  by (induction current arbitrary: pollCount) simp_all

lemma polls_cycleEvents:
  "polls (cycleEvents ai pollCount current) = map (Pair ai) current"
  by (induction current arbitrary: pollCount) simp_all

lemma submissions_cycleEvents: "submissions (cycleEvents ai pollCount current) = []"
  by (induction current arbitrary: pollCount) simp_all

lemma fetches_cycleEvents: "fetches (cycleEvents ai pollCount current) = []"
  by (induction current arbitrary: pollCount) simp_all

lemma objectURLsCreated_cycleEvents:
  "objectURLsCreated (cycleEvents ai pollCount current) = []"
  by (induction current arbitrary: pollCount) simp_all

lemma orchestratorCalls_cycleEvents:
  "orchestratorCalls (cycleEvents ai pollCount current) = []"
  by (induction current arbitrary: pollCount) simp_all

lemmas observe_cycleEvents =
  progressMessages_cycleEvents delays_cycleEvents polls_cycleEvents submissions_cycleEvents
  fetches_cycleEvents objectURLsCreated_cycleEvents orchestratorCalls_cycleEvents

section \<open>The parts of generateVideo\<close>

text \<open>What the part after the loop adds to the log.\<close>

lemma download_log:
  assumes "download env onProgress operation w log = (r, w', log')"
  shows "\<exists>rest. log' = log @ Progress completeMessage # rest \<and>
           progressMessages rest = [] \<and> delays rest = [] \<and> polls rest = [] \<and>
           submissions rest = [] \<and> orchestratorCalls rest = [] \<and>
           length (fetches rest) \<le> 1 \<and> length (objectURLsCreated rest) \<le> 1"
  using assms
  by (auto simp: download_def Let_def split: option.splits if_splits prod.splits sum.splits)

lemma generateVideo_done:
  assumes "GoogleGenAI env (API_KEY env w) = None"
    and "generateVideos env (API_KEY env w)
             (request prompt (dataUrlToMimeAndBase64 imageDataUrl) aspectRatio)
             (onProgress sendingMessage w) = (Inr submitted, w1)"
    and "pendingCycles env (API_KEY env w) onProgress n 0 submitted
           (onProgress warmingMessage w1) = Some (current, operation, w2)"
    and "isDone operation = Some True"
  shows "generateVideo env prompt imageDataUrl aspectRatio onProgress w =
           Some (download env onProgress operation w2
                   ([Progress sendingMessage,
                     GenerateVideos (API_KEY env w)
                       (request prompt (dataUrlToMimeAndBase64 imageDataUrl) aspectRatio),
                     Progress warmingMessage] @ cycleEvents (API_KEY env w) 0 current))"
  using assms(1,2) pollLoop_pending [OF assms(3,4)]
  by (simp add: generateVideo_def Let_def)

section \<open>Properties of generateVideo\<close>

lemmas mock_defs =
  mockEnv_def mockGoogleGenAI_def mockAnswer_def mockWorld0_def mockProgress_def doneWith_def pendingOp_def
  downloadLink_def mockFetch_def mockCreateObjectURL_def template_def lit_def digit_def
  Let_def

text \<open>
  Claim C3. When the client is constructed and the answer to the submission is already
  done, its download link is a
  non-empty string, the fetch of the link gives a response that is \<open>ok\<close> and its body can
  be read, then generateVideo returns the object URL created for this body; the log of
  the call is the six calls below, with no wait and no status request among them.
\<close>

theorem immediate_done_no_delay:
  assumes "GoogleGenAI env (API_KEY env w) = None"
    and "generateVideos env (API_KEY env w)
             (request prompt (dataUrlToMimeAndBase64 imageDataUrl) aspectRatio)
             (onProgress sendingMessage w) = (Inr operation, w1)"
    and "isDone operation = Some True"
    and "downloadLink operation = Some link" and "link \<noteq> []"
    and "w2 = onProgress completeMessage (onProgress warmingMessage w1)"
    and "fetch env (link @ lit ''&key='' @ template (API_KEY env w2)) w2 =
           (Inr videoResponse, w3)"
    and "ok videoResponse" and "blob videoResponse = Inr videoBlob"
    and "createObjectURL env videoBlob w3 = (objectUrl, w4)"
  shows "\<exists>log. generateVideo env prompt imageDataUrl aspectRatio onProgress w =
           Some (Inr objectUrl, w4, log)
         \<and> log = [Progress sendingMessage,
                  GenerateVideos (API_KEY env w)
                    (request prompt (dataUrlToMimeAndBase64 imageDataUrl) aspectRatio),
                  Progress warmingMessage, Progress completeMessage,
                  Fetch (link @ lit ''&key='' @ template (API_KEY env w2)),
                  CreateObjectURL videoBlob]
         \<and> delays log = [] \<and> polls log = []"
proof -
  have "pendingCycles env (API_KEY env w) onProgress 0 0 operation
          (onProgress warmingMessage w1) = Some ([], operation, onProgress warmingMessage w1)"
    by simp
  from generateVideo_done [OF assms(1,2) this assms(3)] assms(4-)
  show ?thesis
    by (simp add: download_def Let_def)
qed

theorem immediate_done_no_delay_witness:
  "\<exists>log. generateVideo mockEnv (lit ''Waves at night'') (lit ''data:image/jpeg;base64,QUJD'')
      Portrait_9_16 mockProgress
      (mockWorld0 (lit ''K1'') [doneWith (lit ''https://example/video123'')]) =
      Some (Inr (lit ''blob:0''),
            (mockWorld0 (lit ''K1'') [])
              \<lparr> objectURLs := [(lit ''blob:0'', [1, 2, 3])],
                shown := [sendingMessage, warmingMessage, completeMessage] \<rparr>, log)
      \<and> delays log = []"
proof -
  let ?w = "mockWorld0 (lit ''K1'') [doneWith (lit ''https://example/video123'')]"
  let ?w1 = "mockProgress sendingMessage ?w \<lparr> script := [] \<rparr>"
  let ?w2 = "mockProgress completeMessage (mockProgress warmingMessage ?w1)"
  have "\<exists>log. generateVideo mockEnv (lit ''Waves at night'')
      (lit ''data:image/jpeg;base64,QUJD'') Portrait_9_16 mockProgress ?w =
           Some (Inr (lit ''blob:0''), ?w2 \<lparr> objectURLs := [(lit ''blob:0'', [1, 2, 3])] \<rparr>, log)
         \<and> log = [Progress sendingMessage,
                  GenerateVideos (API_KEY mockEnv ?w)
                    (request (lit ''Waves at night'')
                       (dataUrlToMimeAndBase64 (lit ''data:image/jpeg;base64,QUJD''))
                       Portrait_9_16),
                  Progress warmingMessage, Progress completeMessage,
                  Fetch (lit ''https://example/video123'' @ lit ''&key=''
                           @ template (API_KEY mockEnv ?w2)),
                  CreateObjectURL [1, 2, 3]]
         \<and> delays log = [] \<and> polls log = []"
    by (rule immediate_done_no_delay [where ?w1.0 = ?w1 and operation = "doneWith (lit ''https://example/video123'')"
          and videoResponse = "\<lparr> ok = True, statusText = lit ''OK'', blob = Inr [1, 2, 3] \<rparr>"
          and ?w3.0 = ?w2])
       (simp_all add: mock_defs)
  then show ?thesis
    by (auto simp: mockWorld0_def mockProgress_def)
qed

text \<open>
  Claim C4. When the client is constructed, the submission is answered, the job stays
  pending for \<open>n\<close> passes of the loop and is done after them, generateVideo returns, and its log is the submission, then for each pass in turn
  the progress message with the counter of the pass, the wait of 10000 milliseconds and
  the status request with the descriptor that was current in this pass, then the part
  after the loop. So the progress messages are the two fixed ones, the check messages
  with the counters 1 to \<open>n\<close> in increasing order, which are \<open>n\<close> different texts, and
  the completion message; there are
  exactly \<open>n\<close> waits, each of 10000 milliseconds; and the status requests pass the
  current descriptors back, with the client of this call.
\<close>

theorem pending_cycles_progress:
  assumes "GoogleGenAI env (API_KEY env w) = None"
    and "generateVideos env (API_KEY env w)
             (request prompt (dataUrlToMimeAndBase64 imageDataUrl) aspectRatio)
             (onProgress sendingMessage w) = (Inr submitted, w1)"
    and "pendingCycles env (API_KEY env w) onProgress n 0 submitted
           (onProgress warmingMessage w1) = Some (current, operation, w2)"
    and "isDone operation = Some True"
  shows "\<exists>r w' log rest.
           generateVideo env prompt imageDataUrl aspectRatio onProgress w = Some (r, w', log)
         \<and> log = [Progress sendingMessage,
                  GenerateVideos (API_KEY env w)
                    (request prompt (dataUrlToMimeAndBase64 imageDataUrl) aspectRatio),
                  Progress warmingMessage]
                 @ cycleEvents (API_KEY env w) 0 current @ Progress completeMessage # rest
         \<and> length current = n
         \<and> progressMessages log =
               [sendingMessage, warmingMessage] @ map checkMessage [1 ..< n + 1]
                 @ [completeMessage]
         \<and> distinct (map checkMessage [1 ..< n + 1])
         \<and> delays log = replicate n 10000
         \<and> polls log = map (Pair (API_KEY env w)) current"
proof -
  let ?log = "[Progress sendingMessage,
               GenerateVideos (API_KEY env w)
                 (request prompt (dataUrlToMimeAndBase64 imageDataUrl) aspectRatio),
               Progress warmingMessage] @ cycleEvents (API_KEY env w) 0 current"
  obtain r w' log where d: "download env onProgress operation w2 ?log = (r, w', log)"
    by (cases "download env onProgress operation w2 ?log")
  from download_log [OF d] obtain rest where
    log: "log = ?log @ Progress completeMessage # rest" and
    rest: "progressMessages rest = []" "delays rest = []" "polls rest = []"
    by blast
  have n: "length current = n"
    using assms(3) by (rule pendingCycles_length)
  have "generateVideo env prompt imageDataUrl aspectRatio onProgress w = Some (r, w', log)"
    using generateVideo_done [OF assms] d by simp
  moreover have "progressMessages log =
      [sendingMessage, warmingMessage] @ map checkMessage [1 ..< n + 1] @ [completeMessage]"
    using rest(1) n by (simp add: log observe_append observe_cycleEvents)
  moreover have "distinct (map checkMessage [1 ..< n + 1])"
    by (simp add: distinct_map inj_on_def del: upt_Suc) (blast dest: checkMessage_inject)
  moreover have "delays log = replicate n 10000"
    using rest(2) n by (simp add: log observe_append observe_cycleEvents)
  moreover have "polls log = map (Pair (API_KEY env w)) current"
    using rest(3) by (simp add: log observe_append observe_cycleEvents)
  ultimately show ?thesis
    using log n by auto
qed

theorem pending_cycles_progress_witness:
  "\<exists>r w' log rest.
     generateVideo mockEnv (lit ''A dog running on a beach'') (lit ''data:image/png;base64,AAAA'')
       Landscape_16_9 mockProgress
       (mockWorld0 (lit ''KEY'') [pendingOp, pendingOp, doneWith (lit ''https://example/video123'')])
       = Some (r, w', log)
   \<and> progressMessages log =
        [sendingMessage, warmingMessage, checkMessage 1, checkMessage 2, completeMessage]
   \<and> delays log = [10000, 10000]
   \<and> polls log = [(Some (lit ''KEY''), pendingOp), (Some (lit ''KEY''), pendingOp)]"
proof -
  let ?w = "mockWorld0 (lit ''KEY'')
              [pendingOp, pendingOp, doneWith (lit ''https://example/video123'')]"
  let ?w1 = "mockProgress sendingMessage ?w
               \<lparr> script := [pendingOp, doneWith (lit ''https://example/video123'')] \<rparr>"
  let ?w2 = "mockProgress (checkMessage 2) (mockProgress (checkMessage 1)
               (mockProgress warmingMessage ?w1)) \<lparr> script := [], clock := 20000 \<rparr>"
  have submit: "generateVideos mockEnv (API_KEY mockEnv ?w)
             (request (lit ''A dog running on a beach'')
                (dataUrlToMimeAndBase64 (lit ''data:image/png;base64,AAAA'')) Landscape_16_9)
             (mockProgress sendingMessage ?w) = (Inr pendingOp, ?w1)"
    by (simp add: mockEnv_def mockAnswer_def mockWorld0_def mockProgress_def)
  have pending: "pendingCycles mockEnv (API_KEY mockEnv ?w) mockProgress (Suc (Suc 0)) 0 pendingOp
           (mockProgress warmingMessage ?w1) =
           Some ([pendingOp, pendingOp], doneWith (lit ''https://example/video123''), ?w2)"
    by (simp add: mockEnv_def mockAnswer_def mockWorld0_def mockProgress_def pendingOp_def
        numeral_2_eq_2)
  have finished: "isDone (doneWith (lit ''https://example/video123'')) = Some True"
    by (simp add: doneWith_def)
  have constructed: "GoogleGenAI mockEnv (API_KEY mockEnv ?w) = None"
    by (simp add: mockEnv_def mockGoogleGenAI_def mockWorld0_def)
  have counters: "map checkMessage [1 ..< Suc (Suc 0) + 1] = [checkMessage 1, checkMessage 2]"
    by (simp add: upt_rec numeral_2_eq_2)
  from pending_cycles_progress [OF constructed submit pending finished, unfolded counters] show ?thesis
    by (auto simp: mockEnv_def mockWorld0_def)
qed

text \<open>
  Claim C5. When the service reports done (to a client that was constructed, after any
  number of passes of the loop) and
  the download link of the last descriptor is absent or the empty string, generateVideo
  throws the error \<open>Video generation failed: No download link found.\<close> (the failure the
  specification calls MissingAssetError), and the log has no fetch and no object URL.
\<close>

theorem missing_asset_no_fetch:
  assumes "GoogleGenAI env (API_KEY env w) = None"
    and "generateVideos env (API_KEY env w)
             (request prompt (dataUrlToMimeAndBase64 imageDataUrl) aspectRatio)
             (onProgress sendingMessage w) = (Inr submitted, w1)"
    and "pendingCycles env (API_KEY env w) onProgress n 0 submitted
           (onProgress warmingMessage w1) = Some (current, operation, w2)"
    and "isDone operation = Some True"
    and "downloadLink operation = None \<or> downloadLink operation = Some []"
  shows "\<exists>log. generateVideo env prompt imageDataUrl aspectRatio onProgress w =
                 Some (Inl noDownloadLink, onProgress completeMessage w2, log)
             \<and> fetches log = [] \<and> objectURLsCreated log = []"
  using generateVideo_done [OF assms(1-4)] assms(5)
  by (auto simp: download_def Let_def observe_append observe_cycleEvents)

theorem missing_asset_no_fetch_witness:
  "(\<exists>log. generateVideo mockEnv (lit ''A dog running on a beach'')
       (lit ''data:image/png;base64,AAAA'') Landscape_16_9 mockProgress
       (mockWorld0 (lit ''KEY'') [pendingOp \<lparr> isDone := Some True \<rparr>]) =
       Some (Inl noDownloadLink,
         mockProgress completeMessage (mockProgress warmingMessage
           (mockProgress sendingMessage (mockWorld0 (lit ''KEY'') []))), log)
     \<and> fetches log = [] \<and> objectURLsCreated log = [])
   \<and> (\<exists>log. generateVideo mockEnv (lit ''A dog running on a beach'')
       (lit ''data:image/png;base64,AAAA'') Landscape_16_9 mockProgress
       (mockWorld0 (lit ''KEY'') [pendingOp, doneWith []]) =
       Some (Inl noDownloadLink,
         mockProgress completeMessage
           ((mockProgress (checkMessage 1) (mockProgress warmingMessage
              (mockProgress sendingMessage (mockWorld0 (lit ''KEY'') []))))
            \<lparr> clock := 10000 \<rparr>), log)
     \<and> fetches log = [] \<and> objectURLsCreated log = [])"
proof -
  let ?absent = "pendingOp \<lparr> isDone := Some True \<rparr>"
  let ?w1 = "mockProgress sendingMessage (mockWorld0 (lit ''KEY'') [])"
  have "\<exists>log. generateVideo mockEnv (lit ''A dog running on a beach'')
       (lit ''data:image/png;base64,AAAA'') Landscape_16_9 mockProgress
       (mockWorld0 (lit ''KEY'') [?absent]) =
       Some (Inl noDownloadLink,
         mockProgress completeMessage (mockProgress warmingMessage ?w1), log)
     \<and> fetches log = [] \<and> objectURLsCreated log = []"
    by (rule missing_asset_no_fetch [where n = 0 and submitted = ?absent and ?w1.0 = ?w1 and current = "[]"
          and operation = ?absent and ?w2.0 = "mockProgress warmingMessage ?w1"])
       (simp_all add: mockEnv_def mockGoogleGenAI_def mockAnswer_def mockWorld0_def
          mockProgress_def pendingOp_def downloadLink_def)
  moreover
  let ?v1 = "mockProgress sendingMessage (mockWorld0 (lit ''KEY'') [doneWith []])"
  let ?v2 = "(mockProgress (checkMessage 1) (mockProgress warmingMessage
              (mockProgress sendingMessage (mockWorld0 (lit ''KEY'') []))))
               \<lparr> clock := 10000 \<rparr>"
  have "\<exists>log. generateVideo mockEnv (lit ''A dog running on a beach'')
       (lit ''data:image/png;base64,AAAA'') Landscape_16_9 mockProgress
       (mockWorld0 (lit ''KEY'') [pendingOp, doneWith []]) =
       Some (Inl noDownloadLink, mockProgress completeMessage ?v2, log)
     \<and> fetches log = [] \<and> objectURLsCreated log = []"
    by (rule missing_asset_no_fetch [where n = "Suc 0" and submitted = pendingOp and ?w1.0 = ?v1
          and current = "[pendingOp]" and operation = "doneWith []" and ?w2.0 = ?v2])
       (simp_all add: mockEnv_def mockGoogleGenAI_def mockAnswer_def mockWorld0_def
          mockProgress_def pendingOp_def downloadLink_def doneWith_def)
  ultimately show ?thesis
    by (rule conjI)
qed

text \<open>
  Claim C6. When the service reports done (to a client that was constructed, after any
  number of passes of the loop) with a usable download link and the fetch
  gives a response that is not \<open>ok\<close>, generateVideo throws the error
  \<open>Failed to download video: \<close> followed by the status text (the failure the
  specification calls DownloadError), and no object URL is created.
\<close>

theorem download_failure_no_handle:
  assumes "GoogleGenAI env (API_KEY env w) = None"
    and "generateVideos env (API_KEY env w)
             (request prompt (dataUrlToMimeAndBase64 imageDataUrl) aspectRatio)
             (onProgress sendingMessage w) = (Inr submitted, w1)"
    and "pendingCycles env (API_KEY env w) onProgress n 0 submitted
           (onProgress warmingMessage w1) = Some (current, operation, w2)"
    and "isDone operation = Some True"
    and "downloadLink operation = Some link" and "link \<noteq> []"
    and "w3 = onProgress completeMessage w2"
    and "fetch env (link @ lit ''&key='' @ template (API_KEY env w3)) w3 =
           (Inr videoResponse, w4)"
    and "\<not> ok videoResponse"
  shows "\<exists>log. generateVideo env prompt imageDataUrl aspectRatio onProgress w =
                 Some (Inl (downloadFailed (statusText videoResponse)), w4, log)
             \<and> objectURLsCreated log = []"
  using generateVideo_done [OF assms(1-4)] assms(5-)
  by (auto simp: download_def Let_def observe_append observe_cycleEvents)

theorem download_failure_no_handle_witness:
  "\<exists>log. generateVideo mockEnv (lit ''A dog running on a beach'')
       (lit ''data:image/png;base64,AAAA'') Landscape_16_9 mockProgress
       (mockWorld0 (lit ''KEY'') [doneWith (lit ''https://example/gone'')]) =
       Some (Inl (downloadFailed (lit ''Not Found'')),
         mockProgress completeMessage (mockProgress warmingMessage
           (mockProgress sendingMessage (mockWorld0 (lit ''KEY'') []))), log)
     \<and> objectURLsCreated log = []"
proof -
  let ?w1 = "mockProgress sendingMessage (mockWorld0 (lit ''KEY'') [])"
  let ?w3 = "mockProgress completeMessage (mockProgress warmingMessage ?w1)"
  show ?thesis
    using download_failure_no_handle [where env = mockEnv and onProgress = mockProgress and n = 0
          and w = "mockWorld0 (lit ''KEY'') [doneWith (lit ''https://example/gone'')]"
          and submitted = "doneWith (lit ''https://example/gone'')" and ?w1.0 = ?w1
          and current = "[]" and operation = "doneWith (lit ''https://example/gone'')"
          and ?w2.0 = "mockProgress warmingMessage ?w1"
          and link = "lit ''https://example/gone''" and ?w3.0 = ?w3 and ?w4.0 = ?w3
          and videoResponse = "\<lparr> ok = False, statusText = lit ''Not Found'', blob = Inr [] \<rparr>"
          and prompt = "lit ''A dog running on a beach''"
          and imageDataUrl = "lit ''data:image/png;base64,AAAA''"
          and aspectRatio = Landscape_16_9]
    by (simp add: mock_defs)
qed

lemma generateVideo_returns:
  assumes "generateVideo env prompt imageDataUrl aspectRatio onProgress w = Some (r, w', log)"
  shows "(\<exists>e. GoogleGenAI env (API_KEY env w) = Some e \<and> r = Inl e \<and> w' = w \<and> log = [])
       \<or> (GoogleGenAI env (API_KEY env w) = None \<and>
          (\<exists>tail. log = [Progress sendingMessage,
                         GenerateVideos (API_KEY env w)
                           (request prompt (dataUrlToMimeAndBase64 imageDataUrl) aspectRatio)]
                        @ tail
             \<and> submissions tail = [] \<and> orchestratorCalls tail = []
             \<and> set (map fst (polls tail)) \<subseteq> {API_KEY env w}))"
proof (cases "GoogleGenAI env (API_KEY env w)")
  case (Some e)
  with assms show ?thesis
    by (simp add: generateVideo_def Let_def)
next
  case None
  let ?ai = "API_KEY env w"
  let ?p = "request prompt (dataUrlToMimeAndBase64 imageDataUrl) aspectRatio"
  obtain r1 w1 where submit:
    "generateVideos env ?ai ?p (onProgress sendingMessage w) = (r1, w1)"
    by (cases "generateVideos env ?ai ?p (onProgress sendingMessage w)")
  show ?thesis
  proof (cases r1)
    case (Inl e)
    with assms None submit have "log = [Progress sendingMessage, GenerateVideos ?ai ?p] @ []"
      by (simp add: generateVideo_def Let_def)
    with None show ?thesis by force
  next
    case (Inr submitted)
    let ?log0 = "[Progress sendingMessage, GenerateVideos ?ai ?p, Progress warmingMessage]"
    from assms None submit Inr obtain y where
      loop: "pollLoop env ?ai onProgress 0 submitted (onProgress warmingMessage w1) ?log0 = Some y"
      by (auto simp: generateVideo_def Let_def split: option.splits)
    obtain r2 w2 log2 where y: "y = (r2, w2, log2)"
      by (cases y)
    from pollLoop_returns [OF loop] y obtain current where
      log2: "log2 = ?log0 @ cycleEvents ?ai 0 current"
      by auto
    show ?thesis
    proof (cases r2)
      case (Inl e)
      with assms None submit \<open>r1 = Inr submitted\<close> loop y
      have "log = [Progress sendingMessage, GenerateVideos ?ai ?p]
                    @ (Progress warmingMessage # cycleEvents ?ai 0 current)"
        by (simp add: generateVideo_def Let_def log2)
      moreover have "submissions (Progress warmingMessage # cycleEvents ?ai 0 current) = []"
        "orchestratorCalls (Progress warmingMessage # cycleEvents ?ai 0 current) = []"
        "set (map fst (polls (Progress warmingMessage # cycleEvents ?ai 0 current))) \<subseteq> {?ai}"
        by (auto simp: observe_cycleEvents)
      ultimately show ?thesis using None by blast
    next
      case (Inr operation)
      with assms None submit \<open>r1 = Inr submitted\<close> loop y
      have "download env onProgress operation w2 log2 = (r, w', log)"
        by (simp add: generateVideo_def Let_def)
      from download_log [OF this] obtain rest where
        log: "log = log2 @ Progress completeMessage # rest" and
        rest: "polls rest = []" "submissions rest = []" "orchestratorCalls rest = []"
        by blast
      let ?tail = "Progress warmingMessage # cycleEvents ?ai 0 current
                     @ Progress completeMessage # rest"
      have "log = [Progress sendingMessage, GenerateVideos ?ai ?p] @ ?tail"
        by (simp add: log log2)
      moreover have "submissions ?tail = []" "orchestratorCalls ?tail = []"
        "set (map fst (polls ?tail)) \<subseteq> {?ai}"
        using rest by (auto simp: observe_append observe_cycleEvents)
      ultimately show ?thesis using None by blast
    qed
  qed
qed

text \<open>
  Claim C7. Each call constructs its client from \<open>process.env.API_KEY\<close> as it is in the
  world in which the call starts. When the constructor throws for this key, the call
  throws the same value and makes no request. When it returns the client, a call that
  returns has made exactly one submission. In both cases every submission and every
  status request in the log of the call is made with this key. Nothing is kept from one
  call to the next, so of two successive calls, with any change \<open>between\<close> of the world
  after the first one, each uses the key of the world in which it starts.
\<close>

theorem credential_read_each_call:
  assumes "generateVideo env prompt1 imageDataUrl1 aspectRatio1 onProgress1 w =
             Some (r1, w1, log1)"
    and "generateVideo env prompt2 imageDataUrl2 aspectRatio2 onProgress2 (between w1) =
             Some (r2, w2, log2)"
  shows "set (map fst (submissions log1)) \<subseteq> {API_KEY env w}
       \<and> set (map fst (polls log1)) \<subseteq> {API_KEY env w}
       \<and> (GoogleGenAI env (API_KEY env w) = None \<longrightarrow>
            map fst (submissions log1) = [API_KEY env w])
       \<and> (\<forall>e. GoogleGenAI env (API_KEY env w) = Some e \<longrightarrow> r1 = Inl e \<and> log1 = [])
       \<and> set (map fst (submissions log2)) \<subseteq> {API_KEY env (between w1)}
       \<and> set (map fst (polls log2)) \<subseteq> {API_KEY env (between w1)}
       \<and> (GoogleGenAI env (API_KEY env (between w1)) = None \<longrightarrow>
            map fst (submissions log2) = [API_KEY env (between w1)])
       \<and> (\<forall>e. GoogleGenAI env (API_KEY env (between w1)) = Some e \<longrightarrow>
            r2 = Inl e \<and> log2 = [])"
proof -
  have "set (map fst (submissions log)) \<subseteq> {API_KEY env v}
       \<and> set (map fst (polls log)) \<subseteq> {API_KEY env v}
       \<and> (GoogleGenAI env (API_KEY env v) = None \<longrightarrow>
            map fst (submissions log) = [API_KEY env v])
       \<and> (\<forall>e. GoogleGenAI env (API_KEY env v) = Some e \<longrightarrow> r = Inl e \<and> log = [])"
    if "generateVideo env p d a sink v = Some (r, v', log)" for p d a sink v r v' log
    using generateVideo_returns [OF that] by (fastforce simp: observe_append)
  from this [OF assms(1)] this [OF assms(2)] show ?thesis
    by simp
qed

theorem credential_read_each_call_witness:
  "map fst (submissions (logOf (generateVideo mockEnv (lit ''A dog running on a beach'')
       (lit ''data:image/png;base64,AAAA'') Landscape_16_9 mockProgress
       (mockWorld0 (lit ''K1'') [doneWith (lit ''https://example/video123'')]))))
     = [Some (lit ''K1'')]
   \<and> map fst (submissions (logOf (generateVideo mockEnv (lit ''A dog running on a beach'')
       (lit ''data:image/png;base64,AAAA'') Landscape_16_9 mockProgress
       ((mockWorld0 (lit ''K1'') [])
          \<lparr> objectURLs := [(lit ''blob:0'', [1, 2, 3])],
            shown := [sendingMessage, warmingMessage, completeMessage],
            key := Some (lit ''K2''),
            script := [pendingOp, doneWith (lit ''https://example/video123'')] \<rparr>))))
     = [Some (lit ''K2'')]
   \<and> map fst (polls (logOf (generateVideo mockEnv (lit ''A dog running on a beach'')
       (lit ''data:image/png;base64,AAAA'') Landscape_16_9 mockProgress
       ((mockWorld0 (lit ''K1'') [])
          \<lparr> objectURLs := [(lit ''blob:0'', [1, 2, 3])],
            shown := [sendingMessage, warmingMessage, completeMessage],
            key := Some (lit ''K2''),
            script := [pendingOp, doneWith (lit ''https://example/video123'')] \<rparr>))))
     = [Some (lit ''K2'')]
   \<and> map_option fst (generateVideo mockEnv (lit ''A dog running on a beach'')
       (lit ''data:image/png;base64,AAAA'') Landscape_16_9 mockProgress
       ((mockWorld0 (lit ''K1'') [])
          \<lparr> objectURLs := [(lit ''blob:0'', [1, 2, 3])],
            shown := [sendingMessage, warmingMessage, completeMessage],
            key := None,
            script := [doneWith (lit ''https://example/video123'')] \<rparr>))
     = Some (Inl (Rejected (Some (lit ''An API Key must be set when running in a browser''))))
   \<and> logOf (generateVideo mockEnv (lit ''A dog running on a beach'')
       (lit ''data:image/png;base64,AAAA'') Landscape_16_9 mockProgress
       ((mockWorld0 (lit ''K1'') [])
          \<lparr> objectURLs := [(lit ''blob:0'', [1, 2, 3])],
            shown := [sendingMessage, warmingMessage, completeMessage],
            key := None,
            script := [doneWith (lit ''https://example/video123'')] \<rparr>))
     = []"
proof -
  let ?w = "mockWorld0 (lit ''K1'') [doneWith (lit ''https://example/video123'')]"
  let ?run1 = "generateVideo mockEnv (lit ''A dog running on a beach'')
       (lit ''data:image/png;base64,AAAA'') Landscape_16_9 mockProgress ?w"
  let ?w1 = "(mockWorld0 (lit ''K1'') [])
          \<lparr> objectURLs := [(lit ''blob:0'', [1, 2, 3])],
            shown := [sendingMessage, warmingMessage, completeMessage] \<rparr>"
  let ?v = "?w1 \<lparr> key := Some (lit ''K2''),
                 script := [pendingOp, doneWith (lit ''https://example/video123'')] \<rparr>"
  let ?u = "?w1 \<lparr> key := None, script := [doneWith (lit ''https://example/video123'')] \<rparr>"
  let ?run2 = "generateVideo mockEnv (lit ''A dog running on a beach'')
       (lit ''data:image/png;base64,AAAA'') Landscape_16_9 mockProgress ?v"
  let ?run3 = "generateVideo mockEnv (lit ''A dog running on a beach'')
       (lit ''data:image/png;base64,AAAA'') Landscape_16_9 mockProgress ?u"
  let ?thrown = "Rejected (Some (lit ''An API Key must be set when running in a browser''))"
  have "map_option (\<lambda>(r, w', log). w') ?run1 = Some ?w1"
    by code_simp
  then obtain r1 log1 where run1: "?run1 = Some (r1, ?w1, log1)"
    by (cases ?run1) auto
  have polls2: "polls (logOf ?run2) = [(Some (lit ''K2''), pendingOp)]"
    by code_simp
  then obtain r2 w2 log2 where run2: "?run2 = Some (r2, w2, log2)"
    by (cases ?run2) (auto simp: logOf_def)
  have "map_option (\<lambda>(r, w', log). w') ?run3 = Some ?u"
    by code_simp
  then obtain r3 log3 where run3: "?run3 = Some (r3, ?u, log3)"
    by (cases ?run3) auto
  have k1: "API_KEY mockEnv ?w = Some (lit ''K1'')"
    and k2: "API_KEY mockEnv ?v = Some (lit ''K2'')"
    and k3: "API_KEY mockEnv ?u = None"
    by (simp_all add: mockEnv_def mockWorld0_def)
  have c1: "GoogleGenAI mockEnv (Some (lit ''K1'')) = None"
    and c2: "GoogleGenAI mockEnv (Some (lit ''K2'')) = None"
    and c3: "GoogleGenAI mockEnv None = Some ?thrown"
    by (simp_all add: mockEnv_def mockGoogleGenAI_def)
  have l1: "logOf ?run1 = log1" and l2: "logOf ?run2 = log2" and l3: "logOf ?run3 = log3"
    and o3: "map_option fst ?run3 = Some r3"
    by (simp_all add: run1 run2 run3 logOf_def)
  from credential_read_each_call [where between = "\<lambda>w. w \<lparr> key := Some (lit ''K2''),
                 script := [pendingOp, doneWith (lit ''https://example/video123'')] \<rparr>",
             OF run1 run2]
       credential_read_each_call [where between = "\<lambda>w. w \<lparr> key := None,
                 script := [doneWith (lit ''https://example/video123'')] \<rparr>",
             OF run1 run3] polls2
  show ?thesis
    unfolding l1 l2 l3 o3 k1 k2 k3 c1 c2 c3 by simp
qed

text \<open>
  Claim C8. Whenever generateVideo returns an object URL, the client was constructed,
  the submission was answered,
  the job was pending for some passes of the loop and then done, the download link of
  the last descriptor is a non-empty string, and the call makes exactly one fetch (a
  call of \<open>fetch\<close> with the URL alone, that is a GET): its URL is the download link
  followed by \<open>&key=\<close> and by \<open>process.env.API_KEY\<close> as it is after the completion
  message, in the text a template literal gives it.
\<close>

theorem download_url_carries_credential:
  assumes "generateVideo env prompt imageDataUrl aspectRatio onProgress w =
             Some (Inr objectUrl, w', log)"
  shows "\<exists>submitted w1 current operation w2 link.
           GoogleGenAI env (API_KEY env w) = None
         \<and> generateVideos env (API_KEY env w)
             (request prompt (dataUrlToMimeAndBase64 imageDataUrl) aspectRatio)
             (onProgress sendingMessage w) = (Inr submitted, w1)
         \<and> pendingCycles env (API_KEY env w) onProgress (length current) 0 submitted
             (onProgress warmingMessage w1) = Some (current, operation, w2)
         \<and> isDone operation = Some True
         \<and> downloadLink operation = Some link \<and> link \<noteq> []
         \<and> fetches log =
             [link @ lit ''&key='' @ template (API_KEY env (onProgress completeMessage w2))]"
proof -
  let ?ai = "API_KEY env w"
  let ?p = "request prompt (dataUrlToMimeAndBase64 imageDataUrl) aspectRatio"
  let ?log0 = "[Progress sendingMessage, GenerateVideos ?ai ?p, Progress warmingMessage]"
  from assms have constructed: "GoogleGenAI env ?ai = None"
    by (cases "GoogleGenAI env ?ai") (auto simp: generateVideo_def Let_def)
  obtain r1 w1 where submit:
    "generateVideos env ?ai ?p (onProgress sendingMessage w) = (r1, w1)"
    by (cases "generateVideos env ?ai ?p (onProgress sendingMessage w)")
  from assms constructed submit obtain submitted where r1: "r1 = Inr submitted"
    by (cases r1) (auto simp: generateVideo_def Let_def)
  from assms constructed submit r1 obtain y where
    loop: "pollLoop env ?ai onProgress 0 submitted (onProgress warmingMessage w1) ?log0 = Some y"
    by (auto simp: generateVideo_def Let_def split: option.splits)
  obtain r2 w2 log2 where y: "y = (r2, w2, log2)"
    by (cases y)
  from assms constructed submit r1 loop y obtain operation where r2: "r2 = Inr operation"
    by (cases r2) (auto simp: generateVideo_def Let_def)
  from pollLoop_returns [OF loop] y r2 obtain current where
    log2: "log2 = ?log0 @ cycleEvents ?ai 0 current" and
    finished: "isDone operation = Some True" and
    pending: "pendingCycles env ?ai onProgress (length current) 0 submitted
                (onProgress warmingMessage w1) = Some (current, operation, w2)"
    by auto
  from assms constructed submit r1 loop y r2
  have d: "download env onProgress operation w2 log2 = (Inr objectUrl, w', log)"
    by (simp add: generateVideo_def Let_def)
  then obtain link where link: "downloadLink operation = Some link" "link \<noteq> []"
    by (auto simp: download_def Let_def split: option.splits if_splits)
  from d link have "fetches log =
      [link @ lit ''&key='' @ template (API_KEY env (onProgress completeMessage w2))]"
    by (auto simp: download_def Let_def log2 observe_append observe_cycleEvents
        split: prod.splits sum.splits if_splits)
  with constructed submit r1 pending finished link show ?thesis
    by blast
qed

theorem download_url_carries_credential_witness:
  "generateVideo mockEnv (lit ''A dog running on a beach'')
       (lit ''data:image/png;base64,AAAA'') Landscape_16_9 mockProgress
       (mockWorld0 (lit ''KEY'') [pendingOp, doneWith (lit ''https://example/video123'')]) =
     Some (Inr (lit ''blob:0''),
           (mockWorld0 (lit ''KEY'') [])
             \<lparr> objectURLs := [(lit ''blob:0'', [1, 2, 3])], clock := 10000,
               shown := [sendingMessage, warmingMessage, checkMessage 1, completeMessage] \<rparr>,
           [Progress sendingMessage,
            GenerateVideos (Some (lit ''KEY''))
              (request (lit ''A dog running on a beach'')
                 \<lparr> mimeType = lit ''image/png'', base64 = Some (lit ''AAAA'') \<rparr>
                 Landscape_16_9),
            Progress warmingMessage,
            Progress (checkMessage 1), SetTimeout 10000,
            GetVideosOperation (Some (lit ''KEY'')) pendingOp,
            Progress completeMessage,
            Fetch (lit ''https://example/video123&key=KEY''),
            CreateObjectURL [1, 2, 3]])
   \<and> (\<exists>link w2.
         [lit ''https://example/video123&key=KEY''] =
         [link @ lit ''&key='' @ template (API_KEY mockEnv (mockProgress completeMessage w2))])"
proof -
  let ?run = "generateVideo mockEnv (lit ''A dog running on a beach'')
       (lit ''data:image/png;base64,AAAA'') Landscape_16_9 mockProgress
       (mockWorld0 (lit ''KEY'') [pendingOp, doneWith (lit ''https://example/video123'')])"
  let ?log = "[Progress sendingMessage,
            GenerateVideos (Some (lit ''KEY''))
              (request (lit ''A dog running on a beach'')
                 \<lparr> mimeType = lit ''image/png'', base64 = Some (lit ''AAAA'') \<rparr>
                 Landscape_16_9),
            Progress warmingMessage,
            Progress (checkMessage 1), SetTimeout 10000,
            GetVideosOperation (Some (lit ''KEY'')) pendingOp,
            Progress completeMessage,
            Fetch (lit ''https://example/video123&key=KEY''),
            CreateObjectURL [1, 2, 3]]"
  have run: "?run = Some (Inr (lit ''blob:0''),
           (mockWorld0 (lit ''KEY'') [])
             \<lparr> objectURLs := [(lit ''blob:0'', [1, 2, 3])], clock := 10000,
               shown := [sendingMessage, warmingMessage, checkMessage 1, completeMessage] \<rparr>,
           ?log)"
    by code_simp
  have "fetches ?log = [lit ''https://example/video123&key=KEY'']"
    by simp
  with download_url_carries_credential [OF run] run show ?thesis
    by metis
qed

text \<open>
  Claim C2, as amended. In the scenario (for every credential \<open>cred\<close>) generateVideo
  returns the object URL \<open>blob:0\<close>, which the world after the call maps to the bytes
  1, 2, 3, and the progress sink is called exactly three times: with
  \<open>Sending request to the AI...\<close> before the submission, with
  \<open>AI is warming up its creative engines...\<close> after it, and with
  \<open>Video generation complete! Downloading...\<close>.
\<close>

theorem scenario_immediate_done:
  "generateVideo mockEnv (lit ''A dog running on a beach'') (lit ''data:image/png;base64,AAAA'')
     Landscape_16_9 mockProgress
     (mockWorld0 cred [doneWith (lit ''https://example/video123'')]) =
   Some (Inr (lit ''blob:0''),
         (mockWorld0 cred [])
           \<lparr> objectURLs := [(lit ''blob:0'', [1, 2, 3])],
             shown := [sendingMessage, warmingMessage, completeMessage] \<rparr>,
         [Progress sendingMessage,
          GenerateVideos (Some cred)
            \<lparr> model = lit ''veo-3.1-fast-generate-preview'',
              requestPrompt = lit ''A dog running on a beach'',
              requestImage = \<lparr> imageBytes = Some (lit ''AAAA''),
                               imageMimeType = lit ''image/png'' \<rparr>,
              config = \<lparr> numberOfVideos = 1, resolution = lit ''720p'',
                         configAspectRatio = Landscape_16_9 \<rparr> \<rparr>,
          Progress warmingMessage,
          Progress completeMessage,
          Fetch (lit ''https://example/video123&key='' @ cred),
          CreateObjectURL [1, 2, 3]])"
proof -
  let ?operation = "doneWith (lit ''https://example/video123'')"
  let ?w = "mockWorld0 cred [?operation]"
  let ?w1 = "mockProgress sendingMessage (mockWorld0 cred [])"
  let ?d = "dataUrlToMimeAndBase64 (lit ''data:image/png;base64,AAAA'')"
  have decoded: "?d = \<lparr> mimeType = lit ''image/png'', base64 = Some (lit ''AAAA'') \<rparr>"
    by code_simp
  have submit: "generateVideos mockEnv (API_KEY mockEnv ?w)
      (request (lit ''A dog running on a beach'') ?d Landscape_16_9)
      (mockProgress sendingMessage ?w) = (Inr ?operation, ?w1)"
    by (simp add: mockEnv_def mockAnswer_def mockWorld0_def mockProgress_def)
  have pending: "pendingCycles mockEnv (API_KEY mockEnv ?w) mockProgress 0 0 ?operation
      (mockProgress warmingMessage ?w1) = Some ([], ?operation, mockProgress warmingMessage ?w1)"
    by simp
  have finished: "isDone ?operation = Some True"
    by (simp add: doneWith_def)
  have constructed: "GoogleGenAI mockEnv (API_KEY mockEnv ?w) = None"
    by (simp add: mockEnv_def mockGoogleGenAI_def mockWorld0_def)
  show ?thesis
    unfolding generateVideo_done [OF constructed submit pending finished] decoded
    by (simp add: download_def request_def mock_defs)
qed

text \<open>
  Claim C2 as it is written fails: in the scenario the progress sink is called three
  times, not twice.
\<close>

theorem scenario_progress_count_counterexample:
  "progressMessages (logOf (generateVideo mockEnv (lit ''A dog running on a beach'')
       (lit ''data:image/png;base64,AAAA'') Landscape_16_9 mockProgress
       (mockWorld0 (lit ''KEY'') [doneWith (lit ''https://example/video123'')])))
     = [sendingMessage, warmingMessage, completeMessage]
   \<and> length (progressMessages (logOf (generateVideo mockEnv (lit ''A dog running on a beach'')
       (lit ''data:image/png;base64,AAAA'') Landscape_16_9 mockProgress
       (mockWorld0 (lit ''KEY'') [doneWith (lit ''https://example/video123'')])))) \<noteq> 2"
  by code_simp

section \<open>Properties of handleGenerate\<close>

text \<open>The index of the random prompt is within the list.\<close>

lemma bitLength_le: "x < 2 ^ m \<Longrightarrow> bitLength x \<le> m"
proof (induction m arbitrary: x)
  case 0
  then have "x = 0" by simp
  then show ?case by (subst bitLength.simps) simp
next
  case (Suc m)
  show ?case
  proof (cases "x = 0")
    case True
    then show ?thesis by (subst bitLength.simps) simp
  next
    case False
    from Suc.prems have "x div 2 < 2 ^ m" by simp
    then have "bitLength (x div 2) \<le> m" by (rule Suc.IH)
    with False show ?thesis
      by (subst bitLength.simps) simp
  qed
qed

lemma roundToDouble_le: "roundToDouble x \<le> x + 2 ^ (bitLength x - 53) div 2"
proof -
  define e where "e = bitLength x - 53"
  define P :: nat where "P = 2 ^ e"
  define q where "q = x div P"
  define r where "r = x mod P"
  have x: "x = q * P + r"
    by (simp add: q_def r_def)
  have r: "r < P"
    by (simp add: r_def P_def)
  have P: "P = 1 \<or> even P"
    by (cases e) (simp_all add: P_def)
  have round: "roundToDouble x = (if P < 2 * r \<or> (2 * r = P \<and> odd q) then (q + 1) * P else q * P)"
    by (simp add: roundToDouble_def Let_def e_def P_def q_def r_def)
  show ?thesis
  proof (cases "P < 2 * r \<or> (2 * r = P \<and> odd q)")
    case True
    then have "P \<le> 2 * r" by auto
    with r P have "P \<le> r + P div 2" by presburger
    then have "(q + 1) * P \<le> x + P div 2"
      by (simp add: x)
    with True round show ?thesis
      by (simp add: P_def e_def)
  next
    case False
    with round have "roundToDouble x = q * P" by simp
    then show ?thesis by (simp add: x)
  qed
qed

lemma randomIndex_RANDOM_PROMPTS:
  "randomIndex k (length RANDOM_PROMPTS) < length RANDOM_PROMPTS"
proof -
  have k: "unat k < 2 ^ 53"
    using unsigned_less [of k, where 'a = nat] by simp
  define x where "x = unat k * 6"
  from k have x: "x + 6 \<le> 6 * 2 ^ 53"
    by (simp add: x_def)
  then have "x < 2 ^ 56" by simp
  then have "bitLength x \<le> 56" by (rule bitLength_le)
  then have "bitLength x - 53 \<le> 3" by simp
  then have "(2::nat) ^ (bitLength x - 53) \<le> 2 ^ 3"
    by (rule power_increasing) simp
  then have "(2::nat) ^ (bitLength x - 53) div 2 \<le> 4" by simp
  with roundToDouble_le [of x] x have "roundToDouble x < 6 * 2 ^ 53"
    by simp
  then have "roundToDouble x div 2 ^ 53 < 6"
    by (simp add: less_mult_imp_div_less mult.commute)
  moreover have "length RANDOM_PROMPTS = 6"
    by (simp add: RANDOM_PROMPTS_def)
  ultimately show ?thesis
    by (simp only: randomIndex_def x_def)
qed

text \<open>A tie that rounds up: the exact product is below 5, the product of the doubles is 5.\<close>

lemma randomIndex_tie: "randomIndex 7505999378950826 6 = 5"
proof -
  have "bitLength 45035996273704956 = 56"
    by (simp add: bitLength.simps)
  then show ?thesis
    by (simp add: randomIndex_def roundToDouble_def)
qed

lemma handleGenerate_calls:
  assumes "handleGenerate env s w = Some (c, s', w', log)" and "image_state s = Some img"
  shows "\<exists>finalPrompt. orchestratorCalls log = [(finalPrompt, dataUrl img, aspectRatio_state s)]"
proof -
  obtain finalPrompt v where
    choice: "(if prompt_state s \<noteq> [] then (prompt_state s, w)
              else let (k, w) = Math_random env w
                   in (RANDOM_PROMPTS ! randomIndex k (length RANDOM_PROMPTS), w))
             = (finalPrompt, v)"
    by (cases "(if prompt_state s \<noteq> [] then (prompt_state s, w)
              else let (k, w) = Math_random env w
                   in (RANDOM_PROMPTS ! randomIndex k (length RANDOM_PROMPTS), w))")
  let ?st = "if prompt_state s = []
             then s\<lparr> error := None, videoUrl := None, isLoading := True,
                     prompt_state := finalPrompt \<rparr>
             else s\<lparr> error := None, videoUrl := None, isLoading := True \<rparr>"
  let ?run = "generateVideo (liftEnv env) finalPrompt (dataUrl img) (aspectRatio_state s)
                setLoadingMessage (?st, v)"
  from assms choice obtain r u genlog where run: "?run = Some (r, u, genlog)"
    by (cases ?run) (auto simp: handleGenerate_def Let_def split: if_splits)
  from generateVideo_returns [OF run] have none: "orchestratorCalls genlog = []"
    by (auto simp: observe_append)
  from assms choice run have
    "log = GenerateVideoCalled finalPrompt (dataUrl img) (aspectRatio_state s) # genlog
     \<or> (\<exists>e. log = GenerateVideoCalled finalPrompt (dataUrl img) (aspectRatio_state s)
                 # genlog @ [ConsoleError e])"
    by (cases r; cases u)
       (auto simp: handleGenerate_def Let_def split: if_splits option.splits)
  with none show ?thesis
    by (auto simp: observe_append)
qed

text \<open>
  Claim C10. With no image selected the handler sets the error message
  \<open>Please upload an image to generate a video.\<close> and returns with an empty log: the
  world is as before and generateVideo is not called. Hence every call of generateVideo
  in the log of the handler, however the handler ends, has the data URL of an image
  that is present in the state.
\<close>

theorem no_image_no_orchestrator_call:
  "(image_state s = None \<longrightarrow>
      handleGenerate env s w =
        Some (Returns,
              s\<lparr> error := Some (lit ''Please upload an image to generate a video.'') \<rparr>,
              w, []))
   \<and> (handleGenerate env s w = Some (c, s', w', log) \<and> (p, d, a) \<in> set (orchestratorCalls log) \<longrightarrow>
      (\<exists>img. image_state s = Some img \<and> d = dataUrl img))"
proof (intro conjI impI)
  assume "image_state s = None"
  then show "handleGenerate env s w =
        Some (Returns,
              s\<lparr> error := Some (lit ''Please upload an image to generate a video.'') \<rparr>,
              w, [])"
    by (simp add: handleGenerate_def)
next
  assume run: "handleGenerate env s w = Some (c, s', w', log)
               \<and> (p, d, a) \<in> set (orchestratorCalls log)"
  show "\<exists>img. image_state s = Some img \<and> d = dataUrl img"
  proof (cases "image_state s")
    case None
    with run show ?thesis
      by (auto simp: handleGenerate_def)
  next
    case (Some img)
    with run handleGenerate_calls [of env s w c s' w' log img] show ?thesis
      by auto
  qed
qed

theorem no_image_no_orchestrator_call_witness:
  "handleGenerate mockEnv (mockState None (lit ''A dog running on a beach''))
       (mockWorld0 (lit ''KEY'') [doneWith (lit ''https://example/video123'')]) =
     Some (Returns,
           (mockState None (lit ''A dog running on a beach''))
             \<lparr> error := Some (lit ''Please upload an image to generate a video.'') \<rparr>,
           mockWorld0 (lit ''KEY'') [doneWith (lit ''https://example/video123'')], [])
   \<and> orchestratorCalls (handlerLogOf (handleGenerate mockEnv
         (mockState (Some mockImage) (lit ''A dog running on a beach''))
         (mockWorld0 (lit ''KEY'') [doneWith (lit ''https://example/video123'')]))) =
       [(lit ''A dog running on a beach'', lit ''data:image/png;base64,AAAA'', Landscape_16_9)]
   \<and> (\<exists>img. image_state (mockState (Some mockImage) (lit ''A dog running on a beach'')) = Some img
          \<and> lit ''data:image/png;base64,AAAA'' = dataUrl img)"
proof -
  let ?w = "mockWorld0 (lit ''KEY'') [doneWith (lit ''https://example/video123'')]"
  let ?s0 = "mockState None (lit ''A dog running on a beach'')"
  let ?s1 = "mockState (Some mockImage) (lit ''A dog running on a beach'')"
  let ?call = "(lit ''A dog running on a beach'', lit ''data:image/png;base64,AAAA'',
               Landscape_16_9)"
  have none: "image_state ?s0 = None"
    by (simp add: mockState_def)
  have calls: "orchestratorCalls (handlerLogOf (handleGenerate mockEnv ?s1 ?w)) = [?call]"
    by code_simp
  then obtain c s' w' log where run: "handleGenerate mockEnv ?s1 ?w = Some (c, s', w', log)"
    by (cases "handleGenerate mockEnv ?s1 ?w") (auto simp: handlerLogOf_def)
  with calls have called: "?call \<in> set (orchestratorCalls log)"
    by (simp add: handlerLogOf_def)
  from no_image_no_orchestrator_call [of ?s0 mockEnv ?w]
       none
       no_image_no_orchestrator_call [of ?s1 mockEnv ?w c s' w' log
         "lit ''A dog running on a beach''" "lit ''data:image/png;base64,AAAA''" Landscape_16_9]
       run called calls
  show ?thesis
    by simp
qed

end
